theory Spec2Isabelle
  imports Main "HOL-Library.Multiset"
begin

section \<open>The font generator: range selection and command construction\<close>

text \<open>
  A shallow embedding of \<^verbatim>\<open>generate_font.py\<close>. Python strings are \<open>string\<close>,
  Python integers are \<open>int\<close>, the two dictionaries are association lists read with
  \<open>map_of\<close>, and every exception the code can raise is a value of \<open>error\<close>.
\<close>

subsection \<open>Exceptions\<close>

text \<open>
  \<open>ValueError msg\<close> is the exception raised by the \<^verbatim>\<open>raise\<close> statement of
  \<^verbatim>\<open>get_unicode_ranges\<close>, with its message. \<open>UnpackError n\<close> is the interpreter's
  ValueError for \<^verbatim>\<open>start, end = ...\<close> when the right-hand side has \<open>n \<noteq> 2\<close> items,
  \<open>LiteralError s\<close> the interpreter's ValueError for \<^verbatim>\<open>int(s, 16)\<close> on a text that is
  no hexadecimal literal, and \<open>KeyError k\<close> the failure of a dictionary subscript.
\<close>

datatype error =
    ValueError string
  | UnpackError nat
  | LiteralError string
  | KeyError string

subsection \<open>String primitives\<close>

text \<open>\<^verbatim>\<open>s.split(sep)\<close> for a separator of one character: never an empty list.\<close>

fun split_on :: "char \<Rightarrow> string \<Rightarrow> string list" where
  "split_on sep [] = [[]]"
| "split_on sep (c # cs) =
     (if c = sep then [] # split_on sep cs
      else (case split_on sep cs of
              [] \<Rightarrow> [[c]]
            | w # ws \<Rightarrow> (c # w) # ws))"

text \<open>\<^verbatim>\<open>sep.join(xs)\<close>.\<close>

fun join_with :: "string \<Rightarrow> string list \<Rightarrow> string" where
  "join_with sep [] = []"
| "join_with sep [x] = x"
| "join_with sep (x # y # ys) = x @ sep @ join_with sep (y # ys)"

text \<open>The value of one hexadecimal digit, either case.\<close>

definition hex_digit :: "char \<Rightarrow> int option" where
  "hex_digit c =
     (let n = (of_char c :: nat) in
      if 48 \<le> n \<and> n \<le> 57 then Some (int n - 48)
      else if 97 \<le> n \<and> n \<le> 102 then Some (int n - 87)
      else if 65 \<le> n \<and> n \<le> 70 then Some (int n - 55)
      else None)"

text \<open>
  The characters \<^verbatim>\<open>int\<close> skips at both ends of its argument: tab, line feed, vertical
  tab, form feed, carriage return, the four separators 28 to 31, and space.
\<close>

definition is_space :: "char \<Rightarrow> bool" where
  "is_space c =
     (let n = (of_char c :: nat) in (9 \<le> n \<and> n \<le> 13) \<or> (28 \<le> n \<and> n \<le> 32))"

definition strip :: "string \<Rightarrow> string" where
  "strip s = rev (dropWhile is_space (rev (dropWhile is_space s)))"

text \<open>
  The digits of a literal, read left to right: \<open>acc\<close> is the value so far and \<open>prev\<close>
  the character before. One underscore may stand between two digits; two in a row, or
  one at the end, are refused.
\<close>

fun hex_body :: "int \<Rightarrow> char \<Rightarrow> string \<Rightarrow> int option" where
  "hex_body acc prev [] = (if prev = CHR ''_'' then None else Some acc)"
| "hex_body acc prev (c # cs) =
     (if c = CHR ''_'' then (if prev = CHR ''_'' then None else hex_body acc c cs)
      else (case hex_digit c of
              None \<Rightarrow> None
            | Some d \<Rightarrow> hex_body (16 * acc + d) c cs))"

text \<open>
  \<^verbatim>\<open>int(s, 16)\<close> on ASCII text; \<open>None\<close> is its ValueError. Surrounding white space
  is dropped, then comes an optional sign, an optional prefix \<^verbatim>\<open>0x\<close> or \<^verbatim>\<open>0X\<close>
  (which may be followed by one underscore), and at least one digit. The digits are
  read with a digit as the character before the first one, since an underscore in the
  first place is refused here.
\<close>

definition int16 :: "string \<Rightarrow> int option" where
  "int16 s =
     (let t = strip s;
          neg = (t \<noteq> [] \<and> hd t = CHR ''-'');
          u = (if t \<noteq> [] \<and> (hd t = CHR ''+'' \<or> hd t = CHR ''-'') then tl t else t);
          v = (case u of
                 a # b # r \<Rightarrow>
                   if a = CHR ''0'' \<and> (b = CHR ''x'' \<or> b = CHR ''X'')
                   then (case r of
                           [] \<Rightarrow> []
                         | c # r' \<Rightarrow> if c = CHR ''_'' then r' else r)
                   else u
               | _ \<Rightarrow> u)
      in if v = [] \<or> hd v = CHR ''_'' then None
         else map_option (\<lambda>n. if neg then - n else n) (hex_body 0 (CHR ''0'') v))"

text \<open>\<^verbatim>\<open>str(n)\<close> for an integer: its decimal digits, with a minus sign when negative.\<close>

function nat_digits :: "nat \<Rightarrow> string" where
  "nat_digits n =
     (if n < 10 then [char_of (48 + n)]
      else nat_digits (n div 10) @ [char_of (48 + n mod 10)])"
  by pat_completeness auto
termination
  by (relation "measure (\<lambda>n. n)") auto

definition str_int :: "int \<Rightarrow> string" where
  "str_int i = (if i < 0 then CHR ''-'' # nat_digits (nat (- i)) else nat_digits (nat i))"

text \<open>\<^verbatim>\<open>os.path.join(a, b)\<close> on a POSIX system, for two components.\<close>

definition path_join :: "string \<Rightarrow> string \<Rightarrow> string" where
  "path_join a b =
     (if b \<noteq> [] \<and> hd b = CHR ''/'' then b
      else if a = [] \<or> last a = CHR ''/'' then a @ b
      else a @ ''/'' @ b)"

subsection \<open>Constants and tables\<close>

text \<open>
  \<^verbatim>\<open>SCRIPT_DIR\<close> is the directory of the script, known only when it runs: the font
  paths take it as a parameter.
\<close>

definition UNIFONT_PATH :: "string \<Rightarrow> string" where
  "UNIFONT_PATH script_dir = path_join script_dir ''fonts/unifont-16.0.02.otf''"

definition UNIFONT_UPPER_PATH :: "string \<Rightarrow> string" where
  "UNIFONT_UPPER_PATH script_dir = path_join script_dir ''fonts/unifont_upper-16.0.02.otf''"

definition UNIFONT_JP_PATH :: "string \<Rightarrow> string" where
  "UNIFONT_JP_PATH script_dir = path_join script_dir ''fonts/unifont_jp-16.0.02.otf''"

definition NERD_FONT_PATH :: "string \<Rightarrow> string" where
  "NERD_FONT_PATH script_dir = path_join script_dir ''fonts/SymbolsNerdFontMono-Regular.ttf''"

definition NERD_FONT_RANGE :: string where
  "NERD_FONT_RANGE = ''0xE000-0xF8FF''"

definition split_range :: "string \<Rightarrow> error + (int \<times> int)" where
  "split_range range_str =
     (case split_on (CHR ''-'') range_str of
        [start, stop] \<Rightarrow>
          (case int16 start of
             None \<Rightarrow> Inl (LiteralError start)
           | Some s \<Rightarrow>
               (case int16 stop of
                  None \<Rightarrow> Inl (LiteralError stop)
                | Some e \<Rightarrow> Inr (s, e)))
      | parts \<Rightarrow> Inl (UnpackError (length parts)))"

definition UNICODE_RANGES :: "(string \<times> string) list" where
  "UNICODE_RANGES =
     [(''latin'', ''0x20-0x7E''),
      (''latin_extended'', ''0xA0-0xFF''),
      (''cyrillic'', ''0x0400-0x04FF''),
      (''greek'', ''0x0370-0x03FF''),
      (''japanese'', ''0x3040-0x309F,0x30A0-0x30FF,0x4E00-0x9FFF''),
      (''korean'', ''0xAC00-0xD7AF''),
      (''chinese'', ''0x4E00-0x9FFF''),
      (''devanagari'', ''0x0900-0x097F''),
      (''emoji'',
         ''0x2190-0x21FF,'' @
         ''0x2300-0x23FF,'' @
         ''0x2500-0x257F,'' @
         ''0x2600-0x26FF,'' @
         ''0x1F000-0x1F02F,'' @
         ''0x1F0A0-0x1F0FF,'' @
         ''0x1F100-0x1F1FF,'' @
         ''0x1F200-0x1F2FF,'' @
         ''0x1F300-0x1F9FF,'' @
         ''0x1FA00-0x1FA6F,'' @
         ''0x1FA70-0x1FAFF'')]"

definition LANGUAGE_RANGES :: "(string \<times> string list) list" where
  "LANGUAGE_RANGES =
     [(''cs'', [''latin'', ''latin_extended'']),
      (''de_DE'', [''latin'', ''latin_extended'']),
      (''el'', [''latin'', ''greek'']),
      (''en_GB'', [''latin'']),
      (''en_US'', [''latin'']),
      (''en_x_pirate'', [''latin'']),
      (''es'', [''latin'', ''latin_extended'']),
      (''fil'', [''latin'']),
      (''fr'', [''latin'', ''latin_extended'']),
      (''hi'', [''latin'', ''devanagari'']),
      (''ID'', [''latin'']),
      (''it_IT'', [''latin'', ''latin_extended'']),
      (''ja'', [''latin'', ''japanese'']),
      (''ko'', [''latin'', ''korean'']),
      (''nl'', [''latin'', ''latin_extended'']),
      (''pl'', [''latin'', ''latin_extended'']),
      (''pt_BR'', [''latin'', ''latin_extended'']),
      (''ru'', [''latin'', ''cyrillic'']),
      (''sv'', [''latin'', ''latin_extended'']),
      (''tr'', [''latin'', ''latin_extended'']),
      (''zh_Latn_pinyin'', [''latin'', ''latin_extended''])]"

subsection \<open>get_unicode_ranges\<close>

text \<open>\<^verbatim>\<open>UNICODE_RANGES[script]\<close>.\<close>

definition lookup_range :: "string \<Rightarrow> error + string" where
  "lookup_range script =
     (case map_of UNICODE_RANGES script of
        None \<Rightarrow> Inl (KeyError script)
      | Some r \<Rightarrow> Inr r)"

text \<open>The loop \<^verbatim>\<open>for script in LANGUAGE_RANGES[language]: ranges.add(...)\<close>.\<close>

fun add_scripts :: "string list \<Rightarrow> string set \<Rightarrow> error + string set" where
  "add_scripts [] ranges = Inr ranges"
| "add_scripts (script # rest) ranges =
     (case lookup_range script of
        Inl e \<Rightarrow> Inl e
      | Inr r \<Rightarrow> add_scripts rest (insert r ranges))"

text \<open>
  The first part of the function, up to the set \<^verbatim>\<open>ranges\<close> of group strings: the
  membership test with its \<^verbatim>\<open>raise\<close>, the emoji group, the groups of the language.
\<close>

definition selected_ranges :: "string \<Rightarrow> error + string set" where
  "selected_ranges language =
     (case map_of LANGUAGE_RANGES language of
        None \<Rightarrow> Inl (ValueError (''Unsupported language: '' @ language))
      | Some scripts \<Rightarrow>
          (case lookup_range ''emoji'' of
             Inl e \<Rightarrow> Inl e
           | Inr r \<Rightarrow> add_scripts scripts (insert r {})))"

text \<open>
  The inner loop \<^verbatim>\<open>for part in range_str.split(",")\<close>: each token is parsed and
  appended, as it is, to one of the two lists.
\<close>

fun classify_parts ::
  "string list \<Rightarrow> string list \<times> string list \<Rightarrow> error + (string list \<times> string list)" where
  "classify_parts [] (low_ranges, high_ranges) = Inr (low_ranges, high_ranges)"
| "classify_parts (part # rest) (low_ranges, high_ranges) =
     (case split_range part of
        Inl e \<Rightarrow> Inl e
      | Inr (start, stop) \<Rightarrow>
          if start \<ge> 0x10000
          then classify_parts rest (low_ranges, high_ranges @ [part])
          else classify_parts rest (low_ranges @ [part], high_ranges))"

text \<open>
  The outer loop \<^verbatim>\<open>for range_str in ranges\<close>, over the elements of the set in the
  order in which the interpreter yields them.
\<close>

fun classify_ranges ::
  "string list \<Rightarrow> string list \<times> string list \<Rightarrow> error + (string list \<times> string list)" where
  "classify_ranges [] acc = Inr acc"
| "classify_ranges (range_str # rest) acc =
     (case classify_parts (split_on (CHR '','') range_str) acc of
        Inl e \<Rightarrow> Inl e
      | Inr acc' \<Rightarrow> classify_ranges rest acc')"

text \<open>
  \<^verbatim>\<open>xs.sort(key=lambda x: split_range(x)[0])\<close>: the keys of all elements are computed
  first, in order, and the sort is stable.
\<close>

fun start_keys :: "string list \<Rightarrow> error + int list" where
  "start_keys [] = Inr []"
| "start_keys (x # xs) =
     (case split_range x of
        Inl e \<Rightarrow> Inl e
      | Inr (start, stop) \<Rightarrow>
          (case start_keys xs of
             Inl e \<Rightarrow> Inl e
           | Inr ks \<Rightarrow> Inr (start # ks)))"

definition sort_by_start :: "string list \<Rightarrow> error + string list" where
  "sort_by_start xs =
     (case start_keys xs of
        Inl e \<Rightarrow> Inl e
      | Inr ks \<Rightarrow> Inr (map snd (sort_key fst (zip ks xs))))"

text \<open>
  The second part of the function, from the two empty lists to the result. The
  two-element list that the code returns is a pair here.
\<close>

definition partition_ranges :: "string list \<Rightarrow> error + (string \<times> string)" where
  "partition_ranges order =
     (case classify_ranges order ([], []) of
        Inl e \<Rightarrow> Inl e
      | Inr (low_ranges, high_ranges) \<Rightarrow>
          (case sort_by_start low_ranges of
             Inl e \<Rightarrow> Inl e
           | Inr low_sorted \<Rightarrow>
               (case sort_by_start high_ranges of
                  Inl e \<Rightarrow> Inl e
                | Inr high_sorted \<Rightarrow>
                    Inr (join_with '','' low_sorted, join_with '','' high_sorted))))"

text \<open>
  A Python set has no order of its own: the order of \<^verbatim>\<open>for range_str in ranges\<close>
  depends on the hashes of the strings, which change from one run to the next. The
  model takes that order as the argument \<open>order\<close>; \<open>iteration_order language order\<close>
  says that \<open>order\<close> is one the interpreter can produce, that is, an enumeration of the
  set without repetition.
\<close>

definition get_unicode_ranges :: "string list \<Rightarrow> string \<Rightarrow> error + (string \<times> string)" where
  "get_unicode_ranges order language =
     (case selected_ranges language of
        Inl e \<Rightarrow> Inl e
      | Inr ranges \<Rightarrow> partition_ranges order)"

definition iteration_order :: "string \<Rightarrow> string list \<Rightarrow> bool" where
  "iteration_order language order =
     (case selected_ranges language of
        Inl e \<Rightarrow> True
      | Inr ranges \<Rightarrow> distinct order \<and> set order = ranges)"

subsection \<open>main\<close>

text \<open>
  The statements of \<^verbatim>\<open>main\<close> that build the argument list \<^verbatim>\<open>cmd\<close>, from the choice
  of the base font to the common arguments. The arguments \<open>size_arg\<close> and \<open>bpp\<close> are
  integers already, as \<^verbatim>\<open>argparse\<close> delivers them.
\<close>

definition make_cmd ::
  "string \<Rightarrow> string \<Rightarrow> string \<Rightarrow> string \<Rightarrow> string \<Rightarrow> int \<Rightarrow> int \<Rightarrow> string list" where
  "make_cmd script_dir language low_ranges high_ranges output size_arg bpp =
     (let base_font =
            (if language = ''ja'' then UNIFONT_JP_PATH script_dir else UNIFONT_PATH script_dir);
          cmd = [''lv_font_conv'', ''--font'', base_font, ''--autohint-off'', ''-r'', low_ranges];
          cmd = (if high_ranges \<noteq> []
                 then cmd @ [''--font'', UNIFONT_UPPER_PATH script_dir, ''--autohint-off'',
                             ''-r'', high_ranges]
                 else cmd);
          cmd = cmd @ [''--font'', NERD_FONT_PATH script_dir, ''-r'', NERD_FONT_RANGE];
          cmd = cmd @ [''--size'', str_int size_arg, ''--format'', ''bin'', ''--bpp'',
                       str_int bpp, ''--no-compress'', ''-o'', output]
      in cmd)"

text \<open>
  What \<^verbatim>\<open>subprocess.run(cmd, check=True)\<close> does, as far as \<^verbatim>\<open>main\<close> tells the cases
  apart: the process ran and exited with 0, it exited with another status, or the
  executable was not found.
\<close>

datatype run_result = Completed | CalledProcessError | FileNotFoundError

text \<open>
  \<^verbatim>\<open>main\<close>, with the external process as the function \<open>run\<close>. The result is the list
  of the commands that were launched, and either the exit code that \<^verbatim>\<open>main\<close> returns
  or the exception that leaves it. What \<^verbatim>\<open>main\<close> prints is not modelled.
\<close>

definition main ::
  "(string list \<Rightarrow> run_result) \<Rightarrow> string list \<Rightarrow> string \<Rightarrow> string \<Rightarrow> string \<Rightarrow> int \<Rightarrow> int
     \<Rightarrow> string list list \<times> (error + int)" where
  "main run order script_dir language output size_arg bpp =
     (case get_unicode_ranges order language of
        Inl e \<Rightarrow> ([], Inl e)
      | Inr (low_ranges, high_ranges) \<Rightarrow>
          (let cmd = make_cmd script_dir language low_ranges high_ranges output size_arg bpp
           in ([cmd],
               Inr (case run cmd of
                      Completed \<Rightarrow> 0
                    | CalledProcessError \<Rightarrow> 1
                    | FileNotFoundError \<Rightarrow> 1))))"

subsection \<open>Notions used in the statements\<close>

text \<open>A language code is supported when it is a key of \<^verbatim>\<open>LANGUAGE_RANGES\<close>.\<close>

definition supported :: "string \<Rightarrow> bool" where
  "supported language = (map_of LANGUAGE_RANGES language \<noteq> None)"

text \<open>The start value of a token that parses, and whether a token parses.\<close>

definition start_of :: "string \<Rightarrow> int" where
  "start_of t = (case split_range t of Inl e \<Rightarrow> 0 | Inr (start, stop) \<Rightarrow> start)"

definition parses :: "string \<Rightarrow> bool" where
  "parses t = (case split_range t of Inl e \<Rightarrow> False | Inr p \<Rightarrow> True)"

text \<open>The interval tokens of a list of group strings, in order.\<close>

definition tokens :: "string list \<Rightarrow> string list" where
  "tokens order = concat (map (split_on (CHR '','')) order)"

text \<open>The interval tokens of one named group, and of all groups of \<^verbatim>\<open>UNICODE_RANGES\<close>.\<close>

definition group_tokens :: "string \<Rightarrow> string list" where
  "group_tokens script =
     (case map_of UNICODE_RANGES script of
        None \<Rightarrow> []
      | Some r \<Rightarrow> split_on (CHR '','') r)"

definition table_tokens :: "string list" where
  "table_tokens = concat (map (\<lambda>(script, r). split_on (CHR '','') r) UNICODE_RANGES)"

section \<open>Properties\<close>

subsection \<open>The two loops and the sort, when every token parses\<close>

lemma classify_parts_ok:
  "\<forall>t \<in> set ps. parses t \<Longrightarrow>
   classify_parts ps (lo, hi) =
     Inr (lo @ filter (\<lambda>t. \<not> start_of t \<ge> 0x10000) ps, hi @ filter (\<lambda>t. start_of t \<ge> 0x10000) ps)"
  by (induction ps arbitrary: lo hi)
     (auto simp: parses_def start_of_def split: sum.splits)

lemma classify_ranges_ok:
  "\<forall>t \<in> set (tokens order). parses t \<Longrightarrow>
   classify_ranges order (lo, hi) =
     Inr (lo @ filter (\<lambda>t. \<not> start_of t \<ge> 0x10000) (tokens order),
          hi @ filter (\<lambda>t. start_of t \<ge> 0x10000) (tokens order))"
  by (induction order arbitrary: lo hi) (auto simp: tokens_def classify_parts_ok)

lemma start_keys_ok:
  "\<forall>t \<in> set xs. parses t \<Longrightarrow> start_keys xs = Inr (map start_of xs)"
  by (induction xs) (auto simp: parses_def start_of_def split: sum.splits)

lemma insort_key_tagged:
  "insort_key fst (f x, x) (map (\<lambda>y. (f y, y)) ys) = map (\<lambda>y. (f y, y)) (insort_key f x ys)"
  by (induction ys) auto

lemma sort_key_tagged:
  "sort_key fst (map (\<lambda>y. (f y, y)) xs) = map (\<lambda>y. (f y, y)) (sort_key f xs)"
  by (induction xs) (auto simp: insort_key_tagged)

lemma sort_by_start_ok:
  assumes "\<forall>t \<in> set xs. parses t"
  shows "sort_by_start xs = Inr (sort_key start_of xs)"
proof -
  have "zip (map start_of xs) xs = map (\<lambda>y. (start_of y, y)) xs"
    by (induction xs) auto
  then show ?thesis
    using assms by (simp add: sort_by_start_def start_keys_ok sort_key_tagged comp_def)
qed

lemma partition_ranges_ok:
  assumes "\<forall>t \<in> set (tokens order). parses t"
  shows "partition_ranges order =
     Inr (join_with '','' (sort_key start_of (filter (\<lambda>t. \<not> start_of t \<ge> 0x10000) (tokens order))),
          join_with '','' (sort_key start_of (filter (\<lambda>t. start_of t \<ge> 0x10000) (tokens order))))"
  using assms by (simp add: partition_ranges_def classify_ranges_ok sort_by_start_ok)

lemma mset_tokens_sum:
  "mset (tokens order) = sum_mset (image_mset (\<lambda>r. mset (split_on (CHR '','') r)) (mset order))"
  by (induction order) (simp_all add: tokens_def)

lemma mset_tokens:
  "mset order = mset order' \<Longrightarrow> mset (tokens order) = mset (tokens order')"
  by (simp add: mset_tokens_sum)

lemma sort_key_mset_eq:
  assumes "mset xs = mset ys" and "inj_on f (set xs)"
  shows "sort_key f xs = sort_key f ys"
  using assms by (intro sort_key_inj_key_eq) auto

lemma partition_ranges_order:
  assumes "distinct order" "distinct order'" "set order = set order'"
    and "\<forall>t \<in> set (tokens order'). parses t"
    and "distinct (map start_of (tokens order'))"
  shows "partition_ranges order = partition_ranges order'"
proof -
  have m: "mset order = mset order'"
    using assms(1-3) by (simp add: set_eq_iff_mset_eq_distinct)
  then have mt: "mset (tokens order) = mset (tokens order')"
    by (rule mset_tokens)
  then have st: "set (tokens order) = set (tokens order')"
    by (rule mset_eq_setD)
  have p: "\<forall>t \<in> set (tokens order). parses t"
    using assms(4) st by simp
  have "sort_key start_of (filter P (tokens order)) = sort_key start_of (filter P (tokens order'))" for P
  proof (rule sort_key_mset_eq)
    show "mset (filter P (tokens order)) = mset (filter P (tokens order'))"
      by (simp add: mt)
    show "inj_on start_of (set (filter P (tokens order)))"
      using assms(5) st by (auto simp: distinct_map intro: inj_on_subset)
  qed
  then show ?thesis
    using p assms(4) by (simp add: partition_ranges_ok)
qed

subsection \<open>The tables, evaluated\<close>

lemma lookup_groups:
  "map_of UNICODE_RANGES ''latin'' = Some ''0x20-0x7E''"
  "map_of UNICODE_RANGES ''latin_extended'' = Some ''0xA0-0xFF''"
  "map_of UNICODE_RANGES ''cyrillic'' = Some ''0x0400-0x04FF''"
  "map_of UNICODE_RANGES ''greek'' = Some ''0x0370-0x03FF''"
  "map_of UNICODE_RANGES ''japanese'' = Some ''0x3040-0x309F,0x30A0-0x30FF,0x4E00-0x9FFF''"
  "map_of UNICODE_RANGES ''korean'' = Some ''0xAC00-0xD7AF''"
  "map_of UNICODE_RANGES ''chinese'' = Some ''0x4E00-0x9FFF''"
  "map_of UNICODE_RANGES ''devanagari'' = Some ''0x0900-0x097F''"
  "map_of UNICODE_RANGES ''emoji'' = Some ''0x2190-0x21FF,0x2300-0x23FF,0x2500-0x257F,0x2600-0x26FF,0x1F000-0x1F02F,0x1F0A0-0x1F0FF,0x1F100-0x1F1FF,0x1F200-0x1F2FF,0x1F300-0x1F9FF,0x1FA00-0x1FA6F,0x1FA70-0x1FAFF''"
  by (simp_all add: UNICODE_RANGES_def)

lemma split_groups:
  "split_on (CHR '','') ''0x20-0x7E'' =
       [''0x20-0x7E'']"
  "split_on (CHR '','') ''0xA0-0xFF'' =
       [''0xA0-0xFF'']"
  "split_on (CHR '','') ''0x0400-0x04FF'' =
       [''0x0400-0x04FF'']"
  "split_on (CHR '','') ''0x0370-0x03FF'' =
       [''0x0370-0x03FF'']"
  "split_on (CHR '','') ''0x3040-0x309F,0x30A0-0x30FF,0x4E00-0x9FFF'' =
       [''0x3040-0x309F'', ''0x30A0-0x30FF'', ''0x4E00-0x9FFF'']"
  "split_on (CHR '','') ''0xAC00-0xD7AF'' =
       [''0xAC00-0xD7AF'']"
  "split_on (CHR '','') ''0x0900-0x097F'' =
       [''0x0900-0x097F'']"
  "split_on (CHR '','') ''0x2190-0x21FF,0x2300-0x23FF,0x2500-0x257F,0x2600-0x26FF,0x1F000-0x1F02F,0x1F0A0-0x1F0FF,0x1F100-0x1F1FF,0x1F200-0x1F2FF,0x1F300-0x1F9FF,0x1FA00-0x1FA6F,0x1FA70-0x1FAFF'' =
       [''0x2190-0x21FF'', ''0x2300-0x23FF'', ''0x2500-0x257F'', ''0x2600-0x26FF'', ''0x1F000-0x1F02F'', ''0x1F0A0-0x1F0FF'', ''0x1F100-0x1F1FF'', ''0x1F200-0x1F2FF'', ''0x1F300-0x1F9FF'', ''0x1FA00-0x1FA6F'', ''0x1FA70-0x1FAFF'']"
  by simp_all

lemma split_range_tokens:
  "split_range ''0x20-0x7E'' = Inr (0x20, 0x7E)"
  "split_range ''0xA0-0xFF'' = Inr (0xA0, 0xFF)"
  "split_range ''0x0400-0x04FF'' = Inr (0x400, 0x4FF)"
  "split_range ''0x0370-0x03FF'' = Inr (0x370, 0x3FF)"
  "split_range ''0x3040-0x309F'' = Inr (0x3040, 0x309F)"
  "split_range ''0x30A0-0x30FF'' = Inr (0x30A0, 0x30FF)"
  "split_range ''0x4E00-0x9FFF'' = Inr (0x4E00, 0x9FFF)"
  "split_range ''0xAC00-0xD7AF'' = Inr (0xAC00, 0xD7AF)"
  "split_range ''0x0900-0x097F'' = Inr (0x900, 0x97F)"
  "split_range ''0x2190-0x21FF'' = Inr (0x2190, 0x21FF)"
  "split_range ''0x2300-0x23FF'' = Inr (0x2300, 0x23FF)"
  "split_range ''0x2500-0x257F'' = Inr (0x2500, 0x257F)"
  "split_range ''0x2600-0x26FF'' = Inr (0x2600, 0x26FF)"
  "split_range ''0x1F000-0x1F02F'' = Inr (0x1F000, 0x1F02F)"
  "split_range ''0x1F0A0-0x1F0FF'' = Inr (0x1F0A0, 0x1F0FF)"
  "split_range ''0x1F100-0x1F1FF'' = Inr (0x1F100, 0x1F1FF)"
  "split_range ''0x1F200-0x1F2FF'' = Inr (0x1F200, 0x1F2FF)"
  "split_range ''0x1F300-0x1F9FF'' = Inr (0x1F300, 0x1F9FF)"
  "split_range ''0x1FA00-0x1FA6F'' = Inr (0x1FA00, 0x1FA6F)"
  "split_range ''0x1FA70-0x1FAFF'' = Inr (0x1FA70, 0x1FAFF)"
  "split_range ''0xE000-0xF8FF'' = Inr (0xE000, 0xF8FF)"
  by (simp_all add: split_range_def int16_def strip_def is_space_def hex_digit_def)

subsection \<open>The result for each profile of the language table\<close>

text \<open>
  The table has seven different lists of groups. For each, the result is the same for
  every order in which the set of group strings is iterated.
\<close>

lemma partition_latin:
  assumes "distinct order"
    and "set order =
      {''0x2190-0x21FF,0x2300-0x23FF,0x2500-0x257F,0x2600-0x26FF,0x1F000-0x1F02F,0x1F0A0-0x1F0FF,0x1F100-0x1F1FF,0x1F200-0x1F2FF,0x1F300-0x1F9FF,0x1FA00-0x1FA6F,0x1FA70-0x1FAFF'',
       ''0x20-0x7E''}"
  shows "partition_ranges order =
     Inr (''0x20-0x7E,0x2190-0x21FF,0x2300-0x23FF,0x2500-0x257F,0x2600-0x26FF'',
          ''0x1F000-0x1F02F,0x1F0A0-0x1F0FF,0x1F100-0x1F1FF,0x1F200-0x1F2FF,0x1F300-0x1F9FF,0x1FA00-0x1FA6F,0x1FA70-0x1FAFF'')"
proof -
  have "partition_ranges order = partition_ranges
      [''0x2190-0x21FF,0x2300-0x23FF,0x2500-0x257F,0x2600-0x26FF,0x1F000-0x1F02F,0x1F0A0-0x1F0FF,0x1F100-0x1F1FF,0x1F200-0x1F2FF,0x1F300-0x1F9FF,0x1FA00-0x1FA6F,0x1FA70-0x1FAFF'',
       ''0x20-0x7E'']"
    by (rule partition_ranges_order)
       (use assms in \<open>simp_all add: tokens_def split_groups parses_def start_of_def split_range_tokens\<close>)
  also have "\<dots> =
     Inr (''0x20-0x7E,0x2190-0x21FF,0x2300-0x23FF,0x2500-0x257F,0x2600-0x26FF'',
          ''0x1F000-0x1F02F,0x1F0A0-0x1F0FF,0x1F100-0x1F1FF,0x1F200-0x1F2FF,0x1F300-0x1F9FF,0x1FA00-0x1FA6F,0x1FA70-0x1FAFF'')"
    by (simp add: partition_ranges_def sort_by_start_def split_groups split_range_tokens)
  finally show ?thesis .
qed

lemma result_latin:
  assumes "map_of LANGUAGE_RANGES language = Some [''latin'']"
    and "iteration_order language order"
  shows "get_unicode_ranges order language =
     Inr (''0x20-0x7E,0x2190-0x21FF,0x2300-0x23FF,0x2500-0x257F,0x2600-0x26FF'',
          ''0x1F000-0x1F02F,0x1F0A0-0x1F0FF,0x1F100-0x1F1FF,0x1F200-0x1F2FF,0x1F300-0x1F9FF,0x1FA00-0x1FA6F,0x1FA70-0x1FAFF'')"
proof -
  have s: "selected_ranges language = Inr
      {''0x2190-0x21FF,0x2300-0x23FF,0x2500-0x257F,0x2600-0x26FF,0x1F000-0x1F02F,0x1F0A0-0x1F0FF,0x1F100-0x1F1FF,0x1F200-0x1F2FF,0x1F300-0x1F9FF,0x1FA00-0x1FA6F,0x1FA70-0x1FAFF'',
       ''0x20-0x7E''}"
    using assms(1) by (simp add: selected_ranges_def lookup_range_def lookup_groups insert_commute)
  then have "distinct order" and "set order =
      {''0x2190-0x21FF,0x2300-0x23FF,0x2500-0x257F,0x2600-0x26FF,0x1F000-0x1F02F,0x1F0A0-0x1F0FF,0x1F100-0x1F1FF,0x1F200-0x1F2FF,0x1F300-0x1F9FF,0x1FA00-0x1FA6F,0x1FA70-0x1FAFF'',
       ''0x20-0x7E''}"
    using assms(2) by (simp_all add: iteration_order_def)
  then show ?thesis
    by (simp add: get_unicode_ranges_def s partition_latin)
qed

lemma partition_latin_extended:
  assumes "distinct order"
    and "set order =
      {''0x2190-0x21FF,0x2300-0x23FF,0x2500-0x257F,0x2600-0x26FF,0x1F000-0x1F02F,0x1F0A0-0x1F0FF,0x1F100-0x1F1FF,0x1F200-0x1F2FF,0x1F300-0x1F9FF,0x1FA00-0x1FA6F,0x1FA70-0x1FAFF'',
       ''0x20-0x7E'',
       ''0xA0-0xFF''}"
  shows "partition_ranges order =
     Inr (''0x20-0x7E,0xA0-0xFF,0x2190-0x21FF,0x2300-0x23FF,0x2500-0x257F,0x2600-0x26FF'',
          ''0x1F000-0x1F02F,0x1F0A0-0x1F0FF,0x1F100-0x1F1FF,0x1F200-0x1F2FF,0x1F300-0x1F9FF,0x1FA00-0x1FA6F,0x1FA70-0x1FAFF'')"
proof -
  have "partition_ranges order = partition_ranges
      [''0x2190-0x21FF,0x2300-0x23FF,0x2500-0x257F,0x2600-0x26FF,0x1F000-0x1F02F,0x1F0A0-0x1F0FF,0x1F100-0x1F1FF,0x1F200-0x1F2FF,0x1F300-0x1F9FF,0x1FA00-0x1FA6F,0x1FA70-0x1FAFF'',
       ''0x20-0x7E'',
       ''0xA0-0xFF'']"
    by (rule partition_ranges_order)
       (use assms in \<open>simp_all add: tokens_def split_groups parses_def start_of_def split_range_tokens\<close>)
  also have "\<dots> =
     Inr (''0x20-0x7E,0xA0-0xFF,0x2190-0x21FF,0x2300-0x23FF,0x2500-0x257F,0x2600-0x26FF'',
          ''0x1F000-0x1F02F,0x1F0A0-0x1F0FF,0x1F100-0x1F1FF,0x1F200-0x1F2FF,0x1F300-0x1F9FF,0x1FA00-0x1FA6F,0x1FA70-0x1FAFF'')"
    by (simp add: partition_ranges_def sort_by_start_def split_groups split_range_tokens)
  finally show ?thesis .
qed

lemma result_latin_extended:
  assumes "map_of LANGUAGE_RANGES language = Some [''latin'', ''latin_extended'']"
    and "iteration_order language order"
  shows "get_unicode_ranges order language =
     Inr (''0x20-0x7E,0xA0-0xFF,0x2190-0x21FF,0x2300-0x23FF,0x2500-0x257F,0x2600-0x26FF'',
          ''0x1F000-0x1F02F,0x1F0A0-0x1F0FF,0x1F100-0x1F1FF,0x1F200-0x1F2FF,0x1F300-0x1F9FF,0x1FA00-0x1FA6F,0x1FA70-0x1FAFF'')"
proof -
  have s: "selected_ranges language = Inr
      {''0x2190-0x21FF,0x2300-0x23FF,0x2500-0x257F,0x2600-0x26FF,0x1F000-0x1F02F,0x1F0A0-0x1F0FF,0x1F100-0x1F1FF,0x1F200-0x1F2FF,0x1F300-0x1F9FF,0x1FA00-0x1FA6F,0x1FA70-0x1FAFF'',
       ''0x20-0x7E'',
       ''0xA0-0xFF''}"
    using assms(1) by (simp add: selected_ranges_def lookup_range_def lookup_groups insert_commute)
  then have "distinct order" and "set order =
      {''0x2190-0x21FF,0x2300-0x23FF,0x2500-0x257F,0x2600-0x26FF,0x1F000-0x1F02F,0x1F0A0-0x1F0FF,0x1F100-0x1F1FF,0x1F200-0x1F2FF,0x1F300-0x1F9FF,0x1FA00-0x1FA6F,0x1FA70-0x1FAFF'',
       ''0x20-0x7E'',
       ''0xA0-0xFF''}"
    using assms(2) by (simp_all add: iteration_order_def)
  then show ?thesis
    by (simp add: get_unicode_ranges_def s partition_latin_extended)
qed

lemma partition_greek:
  assumes "distinct order"
    and "set order =
      {''0x2190-0x21FF,0x2300-0x23FF,0x2500-0x257F,0x2600-0x26FF,0x1F000-0x1F02F,0x1F0A0-0x1F0FF,0x1F100-0x1F1FF,0x1F200-0x1F2FF,0x1F300-0x1F9FF,0x1FA00-0x1FA6F,0x1FA70-0x1FAFF'',
       ''0x20-0x7E'',
       ''0x0370-0x03FF''}"
  shows "partition_ranges order =
     Inr (''0x20-0x7E,0x0370-0x03FF,0x2190-0x21FF,0x2300-0x23FF,0x2500-0x257F,0x2600-0x26FF'',
          ''0x1F000-0x1F02F,0x1F0A0-0x1F0FF,0x1F100-0x1F1FF,0x1F200-0x1F2FF,0x1F300-0x1F9FF,0x1FA00-0x1FA6F,0x1FA70-0x1FAFF'')"
proof -
  have "partition_ranges order = partition_ranges
      [''0x2190-0x21FF,0x2300-0x23FF,0x2500-0x257F,0x2600-0x26FF,0x1F000-0x1F02F,0x1F0A0-0x1F0FF,0x1F100-0x1F1FF,0x1F200-0x1F2FF,0x1F300-0x1F9FF,0x1FA00-0x1FA6F,0x1FA70-0x1FAFF'',
       ''0x20-0x7E'',
       ''0x0370-0x03FF'']"
    by (rule partition_ranges_order)
       (use assms in \<open>simp_all add: tokens_def split_groups parses_def start_of_def split_range_tokens\<close>)
  also have "\<dots> =
     Inr (''0x20-0x7E,0x0370-0x03FF,0x2190-0x21FF,0x2300-0x23FF,0x2500-0x257F,0x2600-0x26FF'',
          ''0x1F000-0x1F02F,0x1F0A0-0x1F0FF,0x1F100-0x1F1FF,0x1F200-0x1F2FF,0x1F300-0x1F9FF,0x1FA00-0x1FA6F,0x1FA70-0x1FAFF'')"
    by (simp add: partition_ranges_def sort_by_start_def split_groups split_range_tokens)
  finally show ?thesis .
qed

lemma result_greek:
  assumes "map_of LANGUAGE_RANGES language = Some [''latin'', ''greek'']"
    and "iteration_order language order"
  shows "get_unicode_ranges order language =
     Inr (''0x20-0x7E,0x0370-0x03FF,0x2190-0x21FF,0x2300-0x23FF,0x2500-0x257F,0x2600-0x26FF'',
          ''0x1F000-0x1F02F,0x1F0A0-0x1F0FF,0x1F100-0x1F1FF,0x1F200-0x1F2FF,0x1F300-0x1F9FF,0x1FA00-0x1FA6F,0x1FA70-0x1FAFF'')"
proof -
  have s: "selected_ranges language = Inr
      {''0x2190-0x21FF,0x2300-0x23FF,0x2500-0x257F,0x2600-0x26FF,0x1F000-0x1F02F,0x1F0A0-0x1F0FF,0x1F100-0x1F1FF,0x1F200-0x1F2FF,0x1F300-0x1F9FF,0x1FA00-0x1FA6F,0x1FA70-0x1FAFF'',
       ''0x20-0x7E'',
       ''0x0370-0x03FF''}"
    using assms(1) by (simp add: selected_ranges_def lookup_range_def lookup_groups insert_commute)
  then have "distinct order" and "set order =
      {''0x2190-0x21FF,0x2300-0x23FF,0x2500-0x257F,0x2600-0x26FF,0x1F000-0x1F02F,0x1F0A0-0x1F0FF,0x1F100-0x1F1FF,0x1F200-0x1F2FF,0x1F300-0x1F9FF,0x1FA00-0x1FA6F,0x1FA70-0x1FAFF'',
       ''0x20-0x7E'',
       ''0x0370-0x03FF''}"
    using assms(2) by (simp_all add: iteration_order_def)
  then show ?thesis
    by (simp add: get_unicode_ranges_def s partition_greek)
qed

lemma partition_devanagari:
  assumes "distinct order"
    and "set order =
      {''0x2190-0x21FF,0x2300-0x23FF,0x2500-0x257F,0x2600-0x26FF,0x1F000-0x1F02F,0x1F0A0-0x1F0FF,0x1F100-0x1F1FF,0x1F200-0x1F2FF,0x1F300-0x1F9FF,0x1FA00-0x1FA6F,0x1FA70-0x1FAFF'',
       ''0x20-0x7E'',
       ''0x0900-0x097F''}"
  shows "partition_ranges order =
     Inr (''0x20-0x7E,0x0900-0x097F,0x2190-0x21FF,0x2300-0x23FF,0x2500-0x257F,0x2600-0x26FF'',
          ''0x1F000-0x1F02F,0x1F0A0-0x1F0FF,0x1F100-0x1F1FF,0x1F200-0x1F2FF,0x1F300-0x1F9FF,0x1FA00-0x1FA6F,0x1FA70-0x1FAFF'')"
proof -
  have "partition_ranges order = partition_ranges
      [''0x2190-0x21FF,0x2300-0x23FF,0x2500-0x257F,0x2600-0x26FF,0x1F000-0x1F02F,0x1F0A0-0x1F0FF,0x1F100-0x1F1FF,0x1F200-0x1F2FF,0x1F300-0x1F9FF,0x1FA00-0x1FA6F,0x1FA70-0x1FAFF'',
       ''0x20-0x7E'',
       ''0x0900-0x097F'']"
    by (rule partition_ranges_order)
       (use assms in \<open>simp_all add: tokens_def split_groups parses_def start_of_def split_range_tokens\<close>)
  also have "\<dots> =
     Inr (''0x20-0x7E,0x0900-0x097F,0x2190-0x21FF,0x2300-0x23FF,0x2500-0x257F,0x2600-0x26FF'',
          ''0x1F000-0x1F02F,0x1F0A0-0x1F0FF,0x1F100-0x1F1FF,0x1F200-0x1F2FF,0x1F300-0x1F9FF,0x1FA00-0x1FA6F,0x1FA70-0x1FAFF'')"
    by (simp add: partition_ranges_def sort_by_start_def split_groups split_range_tokens)
  finally show ?thesis .
qed

lemma result_devanagari:
  assumes "map_of LANGUAGE_RANGES language = Some [''latin'', ''devanagari'']"
    and "iteration_order language order"
  shows "get_unicode_ranges order language =
     Inr (''0x20-0x7E,0x0900-0x097F,0x2190-0x21FF,0x2300-0x23FF,0x2500-0x257F,0x2600-0x26FF'',
          ''0x1F000-0x1F02F,0x1F0A0-0x1F0FF,0x1F100-0x1F1FF,0x1F200-0x1F2FF,0x1F300-0x1F9FF,0x1FA00-0x1FA6F,0x1FA70-0x1FAFF'')"
proof -
  have s: "selected_ranges language = Inr
      {''0x2190-0x21FF,0x2300-0x23FF,0x2500-0x257F,0x2600-0x26FF,0x1F000-0x1F02F,0x1F0A0-0x1F0FF,0x1F100-0x1F1FF,0x1F200-0x1F2FF,0x1F300-0x1F9FF,0x1FA00-0x1FA6F,0x1FA70-0x1FAFF'',
       ''0x20-0x7E'',
       ''0x0900-0x097F''}"
    using assms(1) by (simp add: selected_ranges_def lookup_range_def lookup_groups insert_commute)
  then have "distinct order" and "set order =
      {''0x2190-0x21FF,0x2300-0x23FF,0x2500-0x257F,0x2600-0x26FF,0x1F000-0x1F02F,0x1F0A0-0x1F0FF,0x1F100-0x1F1FF,0x1F200-0x1F2FF,0x1F300-0x1F9FF,0x1FA00-0x1FA6F,0x1FA70-0x1FAFF'',
       ''0x20-0x7E'',
       ''0x0900-0x097F''}"
    using assms(2) by (simp_all add: iteration_order_def)
  then show ?thesis
    by (simp add: get_unicode_ranges_def s partition_devanagari)
qed

lemma partition_japanese:
  assumes "distinct order"
    and "set order =
      {''0x2190-0x21FF,0x2300-0x23FF,0x2500-0x257F,0x2600-0x26FF,0x1F000-0x1F02F,0x1F0A0-0x1F0FF,0x1F100-0x1F1FF,0x1F200-0x1F2FF,0x1F300-0x1F9FF,0x1FA00-0x1FA6F,0x1FA70-0x1FAFF'',
       ''0x20-0x7E'',
       ''0x3040-0x309F,0x30A0-0x30FF,0x4E00-0x9FFF''}"
  shows "partition_ranges order =
     Inr (''0x20-0x7E,0x2190-0x21FF,0x2300-0x23FF,0x2500-0x257F,0x2600-0x26FF,0x3040-0x309F,0x30A0-0x30FF,0x4E00-0x9FFF'',
          ''0x1F000-0x1F02F,0x1F0A0-0x1F0FF,0x1F100-0x1F1FF,0x1F200-0x1F2FF,0x1F300-0x1F9FF,0x1FA00-0x1FA6F,0x1FA70-0x1FAFF'')"
proof -
  have "partition_ranges order = partition_ranges
      [''0x2190-0x21FF,0x2300-0x23FF,0x2500-0x257F,0x2600-0x26FF,0x1F000-0x1F02F,0x1F0A0-0x1F0FF,0x1F100-0x1F1FF,0x1F200-0x1F2FF,0x1F300-0x1F9FF,0x1FA00-0x1FA6F,0x1FA70-0x1FAFF'',
       ''0x20-0x7E'',
       ''0x3040-0x309F,0x30A0-0x30FF,0x4E00-0x9FFF'']"
    by (rule partition_ranges_order)
       (use assms in \<open>simp_all add: tokens_def split_groups parses_def start_of_def split_range_tokens\<close>)
  also have "\<dots> =
     Inr (''0x20-0x7E,0x2190-0x21FF,0x2300-0x23FF,0x2500-0x257F,0x2600-0x26FF,0x3040-0x309F,0x30A0-0x30FF,0x4E00-0x9FFF'',
          ''0x1F000-0x1F02F,0x1F0A0-0x1F0FF,0x1F100-0x1F1FF,0x1F200-0x1F2FF,0x1F300-0x1F9FF,0x1FA00-0x1FA6F,0x1FA70-0x1FAFF'')"
    by (simp add: partition_ranges_def sort_by_start_def split_groups split_range_tokens)
  finally show ?thesis .
qed

lemma result_japanese:
  assumes "map_of LANGUAGE_RANGES language = Some [''latin'', ''japanese'']"
    and "iteration_order language order"
  shows "get_unicode_ranges order language =
     Inr (''0x20-0x7E,0x2190-0x21FF,0x2300-0x23FF,0x2500-0x257F,0x2600-0x26FF,0x3040-0x309F,0x30A0-0x30FF,0x4E00-0x9FFF'',
          ''0x1F000-0x1F02F,0x1F0A0-0x1F0FF,0x1F100-0x1F1FF,0x1F200-0x1F2FF,0x1F300-0x1F9FF,0x1FA00-0x1FA6F,0x1FA70-0x1FAFF'')"
proof -
  have s: "selected_ranges language = Inr
      {''0x2190-0x21FF,0x2300-0x23FF,0x2500-0x257F,0x2600-0x26FF,0x1F000-0x1F02F,0x1F0A0-0x1F0FF,0x1F100-0x1F1FF,0x1F200-0x1F2FF,0x1F300-0x1F9FF,0x1FA00-0x1FA6F,0x1FA70-0x1FAFF'',
       ''0x20-0x7E'',
       ''0x3040-0x309F,0x30A0-0x30FF,0x4E00-0x9FFF''}"
    using assms(1) by (simp add: selected_ranges_def lookup_range_def lookup_groups insert_commute)
  then have "distinct order" and "set order =
      {''0x2190-0x21FF,0x2300-0x23FF,0x2500-0x257F,0x2600-0x26FF,0x1F000-0x1F02F,0x1F0A0-0x1F0FF,0x1F100-0x1F1FF,0x1F200-0x1F2FF,0x1F300-0x1F9FF,0x1FA00-0x1FA6F,0x1FA70-0x1FAFF'',
       ''0x20-0x7E'',
       ''0x3040-0x309F,0x30A0-0x30FF,0x4E00-0x9FFF''}"
    using assms(2) by (simp_all add: iteration_order_def)
  then show ?thesis
    by (simp add: get_unicode_ranges_def s partition_japanese)
qed

lemma partition_korean:
  assumes "distinct order"
    and "set order =
      {''0x2190-0x21FF,0x2300-0x23FF,0x2500-0x257F,0x2600-0x26FF,0x1F000-0x1F02F,0x1F0A0-0x1F0FF,0x1F100-0x1F1FF,0x1F200-0x1F2FF,0x1F300-0x1F9FF,0x1FA00-0x1FA6F,0x1FA70-0x1FAFF'',
       ''0x20-0x7E'',
       ''0xAC00-0xD7AF''}"
  shows "partition_ranges order =
     Inr (''0x20-0x7E,0x2190-0x21FF,0x2300-0x23FF,0x2500-0x257F,0x2600-0x26FF,0xAC00-0xD7AF'',
          ''0x1F000-0x1F02F,0x1F0A0-0x1F0FF,0x1F100-0x1F1FF,0x1F200-0x1F2FF,0x1F300-0x1F9FF,0x1FA00-0x1FA6F,0x1FA70-0x1FAFF'')"
proof -
  have "partition_ranges order = partition_ranges
      [''0x2190-0x21FF,0x2300-0x23FF,0x2500-0x257F,0x2600-0x26FF,0x1F000-0x1F02F,0x1F0A0-0x1F0FF,0x1F100-0x1F1FF,0x1F200-0x1F2FF,0x1F300-0x1F9FF,0x1FA00-0x1FA6F,0x1FA70-0x1FAFF'',
       ''0x20-0x7E'',
       ''0xAC00-0xD7AF'']"
    by (rule partition_ranges_order)
       (use assms in \<open>simp_all add: tokens_def split_groups parses_def start_of_def split_range_tokens\<close>)
  also have "\<dots> =
     Inr (''0x20-0x7E,0x2190-0x21FF,0x2300-0x23FF,0x2500-0x257F,0x2600-0x26FF,0xAC00-0xD7AF'',
          ''0x1F000-0x1F02F,0x1F0A0-0x1F0FF,0x1F100-0x1F1FF,0x1F200-0x1F2FF,0x1F300-0x1F9FF,0x1FA00-0x1FA6F,0x1FA70-0x1FAFF'')"
    by (simp add: partition_ranges_def sort_by_start_def split_groups split_range_tokens)
  finally show ?thesis .
qed

lemma result_korean:
  assumes "map_of LANGUAGE_RANGES language = Some [''latin'', ''korean'']"
    and "iteration_order language order"
  shows "get_unicode_ranges order language =
     Inr (''0x20-0x7E,0x2190-0x21FF,0x2300-0x23FF,0x2500-0x257F,0x2600-0x26FF,0xAC00-0xD7AF'',
          ''0x1F000-0x1F02F,0x1F0A0-0x1F0FF,0x1F100-0x1F1FF,0x1F200-0x1F2FF,0x1F300-0x1F9FF,0x1FA00-0x1FA6F,0x1FA70-0x1FAFF'')"
proof -
  have s: "selected_ranges language = Inr
      {''0x2190-0x21FF,0x2300-0x23FF,0x2500-0x257F,0x2600-0x26FF,0x1F000-0x1F02F,0x1F0A0-0x1F0FF,0x1F100-0x1F1FF,0x1F200-0x1F2FF,0x1F300-0x1F9FF,0x1FA00-0x1FA6F,0x1FA70-0x1FAFF'',
       ''0x20-0x7E'',
       ''0xAC00-0xD7AF''}"
    using assms(1) by (simp add: selected_ranges_def lookup_range_def lookup_groups insert_commute)
  then have "distinct order" and "set order =
      {''0x2190-0x21FF,0x2300-0x23FF,0x2500-0x257F,0x2600-0x26FF,0x1F000-0x1F02F,0x1F0A0-0x1F0FF,0x1F100-0x1F1FF,0x1F200-0x1F2FF,0x1F300-0x1F9FF,0x1FA00-0x1FA6F,0x1FA70-0x1FAFF'',
       ''0x20-0x7E'',
       ''0xAC00-0xD7AF''}"
    using assms(2) by (simp_all add: iteration_order_def)
  then show ?thesis
    by (simp add: get_unicode_ranges_def s partition_korean)
qed

lemma partition_cyrillic:
  assumes "distinct order"
    and "set order =
      {''0x2190-0x21FF,0x2300-0x23FF,0x2500-0x257F,0x2600-0x26FF,0x1F000-0x1F02F,0x1F0A0-0x1F0FF,0x1F100-0x1F1FF,0x1F200-0x1F2FF,0x1F300-0x1F9FF,0x1FA00-0x1FA6F,0x1FA70-0x1FAFF'',
       ''0x20-0x7E'',
       ''0x0400-0x04FF''}"
  shows "partition_ranges order =
     Inr (''0x20-0x7E,0x0400-0x04FF,0x2190-0x21FF,0x2300-0x23FF,0x2500-0x257F,0x2600-0x26FF'',
          ''0x1F000-0x1F02F,0x1F0A0-0x1F0FF,0x1F100-0x1F1FF,0x1F200-0x1F2FF,0x1F300-0x1F9FF,0x1FA00-0x1FA6F,0x1FA70-0x1FAFF'')"
proof -
  have "partition_ranges order = partition_ranges
      [''0x2190-0x21FF,0x2300-0x23FF,0x2500-0x257F,0x2600-0x26FF,0x1F000-0x1F02F,0x1F0A0-0x1F0FF,0x1F100-0x1F1FF,0x1F200-0x1F2FF,0x1F300-0x1F9FF,0x1FA00-0x1FA6F,0x1FA70-0x1FAFF'',
       ''0x20-0x7E'',
       ''0x0400-0x04FF'']"
    by (rule partition_ranges_order)
       (use assms in \<open>simp_all add: tokens_def split_groups parses_def start_of_def split_range_tokens\<close>)
  also have "\<dots> =
     Inr (''0x20-0x7E,0x0400-0x04FF,0x2190-0x21FF,0x2300-0x23FF,0x2500-0x257F,0x2600-0x26FF'',
          ''0x1F000-0x1F02F,0x1F0A0-0x1F0FF,0x1F100-0x1F1FF,0x1F200-0x1F2FF,0x1F300-0x1F9FF,0x1FA00-0x1FA6F,0x1FA70-0x1FAFF'')"
    by (simp add: partition_ranges_def sort_by_start_def split_groups split_range_tokens)
  finally show ?thesis .
qed

lemma result_cyrillic:
  assumes "map_of LANGUAGE_RANGES language = Some [''latin'', ''cyrillic'']"
    and "iteration_order language order"
  shows "get_unicode_ranges order language =
     Inr (''0x20-0x7E,0x0400-0x04FF,0x2190-0x21FF,0x2300-0x23FF,0x2500-0x257F,0x2600-0x26FF'',
          ''0x1F000-0x1F02F,0x1F0A0-0x1F0FF,0x1F100-0x1F1FF,0x1F200-0x1F2FF,0x1F300-0x1F9FF,0x1FA00-0x1FA6F,0x1FA70-0x1FAFF'')"
proof -
  have s: "selected_ranges language = Inr
      {''0x2190-0x21FF,0x2300-0x23FF,0x2500-0x257F,0x2600-0x26FF,0x1F000-0x1F02F,0x1F0A0-0x1F0FF,0x1F100-0x1F1FF,0x1F200-0x1F2FF,0x1F300-0x1F9FF,0x1FA00-0x1FA6F,0x1FA70-0x1FAFF'',
       ''0x20-0x7E'',
       ''0x0400-0x04FF''}"
    using assms(1) by (simp add: selected_ranges_def lookup_range_def lookup_groups insert_commute)
  then have "distinct order" and "set order =
      {''0x2190-0x21FF,0x2300-0x23FF,0x2500-0x257F,0x2600-0x26FF,0x1F000-0x1F02F,0x1F0A0-0x1F0FF,0x1F100-0x1F1FF,0x1F200-0x1F2FF,0x1F300-0x1F9FF,0x1FA00-0x1FA6F,0x1FA70-0x1FAFF'',
       ''0x20-0x7E'',
       ''0x0400-0x04FF''}"
    using assms(2) by (simp_all add: iteration_order_def)
  then show ?thesis
    by (simp add: get_unicode_ranges_def s partition_cyrillic)
qed
lemma supported_scripts:
  assumes "supported language"
  shows "map_of LANGUAGE_RANGES language \<in>
     {Some [''latin''], Some [''latin'', ''latin_extended''], Some [''latin'', ''greek''],
      Some [''latin'', ''devanagari''], Some [''latin'', ''japanese''], Some [''latin'', ''korean''],
      Some [''latin'', ''cyrillic'']}"
  using assms unfolding supported_def LANGUAGE_RANGES_def
  by (simp split: if_splits)

lemma supported_results:
  assumes "supported language" and "iteration_order language order"
  shows "(map_of LANGUAGE_RANGES language, get_unicode_ranges order language) \<in>
      {(Some [''latin''],
        Inr (''0x20-0x7E,0x2190-0x21FF,0x2300-0x23FF,0x2500-0x257F,0x2600-0x26FF'',
             ''0x1F000-0x1F02F,0x1F0A0-0x1F0FF,0x1F100-0x1F1FF,0x1F200-0x1F2FF,0x1F300-0x1F9FF,0x1FA00-0x1FA6F,0x1FA70-0x1FAFF'')),
       (Some [''latin'', ''latin_extended''],
        Inr (''0x20-0x7E,0xA0-0xFF,0x2190-0x21FF,0x2300-0x23FF,0x2500-0x257F,0x2600-0x26FF'',
             ''0x1F000-0x1F02F,0x1F0A0-0x1F0FF,0x1F100-0x1F1FF,0x1F200-0x1F2FF,0x1F300-0x1F9FF,0x1FA00-0x1FA6F,0x1FA70-0x1FAFF'')),
       (Some [''latin'', ''greek''],
        Inr (''0x20-0x7E,0x0370-0x03FF,0x2190-0x21FF,0x2300-0x23FF,0x2500-0x257F,0x2600-0x26FF'',
             ''0x1F000-0x1F02F,0x1F0A0-0x1F0FF,0x1F100-0x1F1FF,0x1F200-0x1F2FF,0x1F300-0x1F9FF,0x1FA00-0x1FA6F,0x1FA70-0x1FAFF'')),
       (Some [''latin'', ''devanagari''],
        Inr (''0x20-0x7E,0x0900-0x097F,0x2190-0x21FF,0x2300-0x23FF,0x2500-0x257F,0x2600-0x26FF'',
             ''0x1F000-0x1F02F,0x1F0A0-0x1F0FF,0x1F100-0x1F1FF,0x1F200-0x1F2FF,0x1F300-0x1F9FF,0x1FA00-0x1FA6F,0x1FA70-0x1FAFF'')),
       (Some [''latin'', ''japanese''],
        Inr (''0x20-0x7E,0x2190-0x21FF,0x2300-0x23FF,0x2500-0x257F,0x2600-0x26FF,0x3040-0x309F,0x30A0-0x30FF,0x4E00-0x9FFF'',
             ''0x1F000-0x1F02F,0x1F0A0-0x1F0FF,0x1F100-0x1F1FF,0x1F200-0x1F2FF,0x1F300-0x1F9FF,0x1FA00-0x1FA6F,0x1FA70-0x1FAFF'')),
       (Some [''latin'', ''korean''],
        Inr (''0x20-0x7E,0x2190-0x21FF,0x2300-0x23FF,0x2500-0x257F,0x2600-0x26FF,0xAC00-0xD7AF'',
             ''0x1F000-0x1F02F,0x1F0A0-0x1F0FF,0x1F100-0x1F1FF,0x1F200-0x1F2FF,0x1F300-0x1F9FF,0x1FA00-0x1FA6F,0x1FA70-0x1FAFF'')),
       (Some [''latin'', ''cyrillic''],
        Inr (''0x20-0x7E,0x0400-0x04FF,0x2190-0x21FF,0x2300-0x23FF,0x2500-0x257F,0x2600-0x26FF'',
             ''0x1F000-0x1F02F,0x1F0A0-0x1F0FF,0x1F100-0x1F1FF,0x1F200-0x1F2FF,0x1F300-0x1F9FF,0x1FA00-0x1FA6F,0x1FA70-0x1FAFF''))}"
proof -
  from supported_scripts [OF assms(1)]
  consider "map_of LANGUAGE_RANGES language = Some [''latin'']"
    | "map_of LANGUAGE_RANGES language = Some [''latin'', ''latin_extended'']"
    | "map_of LANGUAGE_RANGES language = Some [''latin'', ''greek'']"
    | "map_of LANGUAGE_RANGES language = Some [''latin'', ''devanagari'']"
    | "map_of LANGUAGE_RANGES language = Some [''latin'', ''japanese'']"
    | "map_of LANGUAGE_RANGES language = Some [''latin'', ''korean'']"
    | "map_of LANGUAGE_RANGES language = Some [''latin'', ''cyrillic'']"
    by blast
  then show ?thesis
  proof cases
    case 1
    then show ?thesis using result_latin [OF 1 assms(2)] by simp
  next
    case 2
    then show ?thesis using result_latin_extended [OF 2 assms(2)] by simp
  next
    case 3
    then show ?thesis using result_greek [OF 3 assms(2)] by simp
  next
    case 4
    then show ?thesis using result_devanagari [OF 4 assms(2)] by simp
  next
    case 5
    then show ?thesis using result_japanese [OF 5 assms(2)] by simp
  next
    case 6
    then show ?thesis using result_korean [OF 6 assms(2)] by simp
  next
    case 7
    then show ?thesis using result_cyrillic [OF 7 assms(2)] by simp
  qed
qed

subsection \<open>Token lists, evaluated\<close>

lemma group_tokens_eval:
  "group_tokens ''latin'' =
     [''0x20-0x7E'']"
  "group_tokens ''latin_extended'' =
     [''0xA0-0xFF'']"
  "group_tokens ''cyrillic'' =
     [''0x0400-0x04FF'']"
  "group_tokens ''greek'' =
     [''0x0370-0x03FF'']"
  "group_tokens ''japanese'' =
     [''0x3040-0x309F'', ''0x30A0-0x30FF'', ''0x4E00-0x9FFF'']"
  "group_tokens ''korean'' =
     [''0xAC00-0xD7AF'']"
  "group_tokens ''chinese'' =
     [''0x4E00-0x9FFF'']"
  "group_tokens ''devanagari'' =
     [''0x0900-0x097F'']"
  "group_tokens ''emoji'' =
     [''0x2190-0x21FF'', ''0x2300-0x23FF'', ''0x2500-0x257F'', ''0x2600-0x26FF'', ''0x1F000-0x1F02F'', ''0x1F0A0-0x1F0FF'', ''0x1F100-0x1F1FF'', ''0x1F200-0x1F2FF'', ''0x1F300-0x1F9FF'', ''0x1FA00-0x1FA6F'', ''0x1FA70-0x1FAFF'']"
  by (simp_all add: group_tokens_def lookup_groups split_groups)

lemma split_results:
  "split_on (CHR '','') ''0x20-0x7E,0x2190-0x21FF,0x2300-0x23FF,0x2500-0x257F,0x2600-0x26FF'' =
     [''0x20-0x7E'', ''0x2190-0x21FF'', ''0x2300-0x23FF'', ''0x2500-0x257F'', ''0x2600-0x26FF'']"
  "split_on (CHR '','') ''0x1F000-0x1F02F,0x1F0A0-0x1F0FF,0x1F100-0x1F1FF,0x1F200-0x1F2FF,0x1F300-0x1F9FF,0x1FA00-0x1FA6F,0x1FA70-0x1FAFF'' =
     [''0x1F000-0x1F02F'', ''0x1F0A0-0x1F0FF'', ''0x1F100-0x1F1FF'', ''0x1F200-0x1F2FF'', ''0x1F300-0x1F9FF'', ''0x1FA00-0x1FA6F'', ''0x1FA70-0x1FAFF'']"
  "split_on (CHR '','') ''0x20-0x7E,0xA0-0xFF,0x2190-0x21FF,0x2300-0x23FF,0x2500-0x257F,0x2600-0x26FF'' =
     [''0x20-0x7E'', ''0xA0-0xFF'', ''0x2190-0x21FF'', ''0x2300-0x23FF'', ''0x2500-0x257F'', ''0x2600-0x26FF'']"
  "split_on (CHR '','') ''0x20-0x7E,0x0370-0x03FF,0x2190-0x21FF,0x2300-0x23FF,0x2500-0x257F,0x2600-0x26FF'' =
     [''0x20-0x7E'', ''0x0370-0x03FF'', ''0x2190-0x21FF'', ''0x2300-0x23FF'', ''0x2500-0x257F'', ''0x2600-0x26FF'']"
  "split_on (CHR '','') ''0x20-0x7E,0x0900-0x097F,0x2190-0x21FF,0x2300-0x23FF,0x2500-0x257F,0x2600-0x26FF'' =
     [''0x20-0x7E'', ''0x0900-0x097F'', ''0x2190-0x21FF'', ''0x2300-0x23FF'', ''0x2500-0x257F'', ''0x2600-0x26FF'']"
  "split_on (CHR '','') ''0x20-0x7E,0x2190-0x21FF,0x2300-0x23FF,0x2500-0x257F,0x2600-0x26FF,0x3040-0x309F,0x30A0-0x30FF,0x4E00-0x9FFF'' =
     [''0x20-0x7E'', ''0x2190-0x21FF'', ''0x2300-0x23FF'', ''0x2500-0x257F'', ''0x2600-0x26FF'', ''0x3040-0x309F'', ''0x30A0-0x30FF'', ''0x4E00-0x9FFF'']"
  "split_on (CHR '','') ''0x20-0x7E,0x2190-0x21FF,0x2300-0x23FF,0x2500-0x257F,0x2600-0x26FF,0xAC00-0xD7AF'' =
     [''0x20-0x7E'', ''0x2190-0x21FF'', ''0x2300-0x23FF'', ''0x2500-0x257F'', ''0x2600-0x26FF'', ''0xAC00-0xD7AF'']"
  "split_on (CHR '','') ''0x20-0x7E,0x0400-0x04FF,0x2190-0x21FF,0x2300-0x23FF,0x2500-0x257F,0x2600-0x26FF'' =
     [''0x20-0x7E'', ''0x0400-0x04FF'', ''0x2190-0x21FF'', ''0x2300-0x23FF'', ''0x2500-0x257F'', ''0x2600-0x26FF'']"
  by simp_all

lemma table_tokens_eval:
  "table_tokens =
     [''0x20-0x7E'', ''0xA0-0xFF'', ''0x0400-0x04FF'', ''0x0370-0x03FF'',
      ''0x3040-0x309F'', ''0x30A0-0x30FF'', ''0x4E00-0x9FFF'', ''0xAC00-0xD7AF'',
      ''0x4E00-0x9FFF'', ''0x0900-0x097F'', ''0x2190-0x21FF'', ''0x2300-0x23FF'',
      ''0x2500-0x257F'', ''0x2600-0x26FF'', ''0x1F000-0x1F02F'', ''0x1F0A0-0x1F0FF'',
      ''0x1F100-0x1F1FF'', ''0x1F200-0x1F2FF'', ''0x1F300-0x1F9FF'',
      ''0x1FA00-0x1FA6F'', ''0x1FA70-0x1FAFF'']"
  by (simp add: table_tokens_def UNICODE_RANGES_def split_groups)

lemma start_of_tokens:
  "start_of ''0x20-0x7E'' = 0x20"
  "start_of ''0xA0-0xFF'' = 0xA0"
  "start_of ''0x0400-0x04FF'' = 0x400"
  "start_of ''0x0370-0x03FF'' = 0x370"
  "start_of ''0x3040-0x309F'' = 0x3040"
  "start_of ''0x30A0-0x30FF'' = 0x30A0"
  "start_of ''0x4E00-0x9FFF'' = 0x4E00"
  "start_of ''0xAC00-0xD7AF'' = 0xAC00"
  "start_of ''0x0900-0x097F'' = 0x900"
  "start_of ''0x2190-0x21FF'' = 0x2190"
  "start_of ''0x2300-0x23FF'' = 0x2300"
  "start_of ''0x2500-0x257F'' = 0x2500"
  "start_of ''0x2600-0x26FF'' = 0x2600"
  "start_of ''0x1F000-0x1F02F'' = 0x1F000"
  "start_of ''0x1F0A0-0x1F0FF'' = 0x1F0A0"
  "start_of ''0x1F100-0x1F1FF'' = 0x1F100"
  "start_of ''0x1F200-0x1F2FF'' = 0x1F200"
  "start_of ''0x1F300-0x1F9FF'' = 0x1F300"
  "start_of ''0x1FA00-0x1FA6F'' = 0x1FA00"
  "start_of ''0x1FA70-0x1FAFF'' = 0x1FA70"
  "start_of ''0xE000-0xF8FF'' = 0xE000"
  by (simp_all add: start_of_def split_range_tokens)

lemma parses_tokens:
  "parses ''0x20-0x7E''"
  "parses ''0xA0-0xFF''"
  "parses ''0x0400-0x04FF''"
  "parses ''0x0370-0x03FF''"
  "parses ''0x3040-0x309F''"
  "parses ''0x30A0-0x30FF''"
  "parses ''0x4E00-0x9FFF''"
  "parses ''0xAC00-0xD7AF''"
  "parses ''0x0900-0x097F''"
  "parses ''0x2190-0x21FF''"
  "parses ''0x2300-0x23FF''"
  "parses ''0x2500-0x257F''"
  "parses ''0x2600-0x26FF''"
  "parses ''0x1F000-0x1F02F''"
  "parses ''0x1F0A0-0x1F0FF''"
  "parses ''0x1F100-0x1F1FF''"
  "parses ''0x1F200-0x1F2FF''"
  "parses ''0x1F300-0x1F9FF''"
  "parses ''0x1FA00-0x1FA6F''"
  "parses ''0x1FA70-0x1FAFF''"
  "parses ''0xE000-0xF8FF''"
  by (simp_all add: parses_def split_range_tokens)

subsection \<open>Concrete inputs\<close>

lemma supported_en_US: "supported ''en_US''"
  by (simp add: supported_def LANGUAGE_RANGES_def)

lemma supported_ja: "supported ''ja''"
  by (simp add: supported_def LANGUAGE_RANGES_def)

lemma not_supported_xx: "\<not> supported ''xx_unknown''"
  by (simp add: supported_def LANGUAGE_RANGES_def)

lemma scripts_en_US: "map_of LANGUAGE_RANGES ''en_US'' = Some [''latin'']"
  by (simp add: LANGUAGE_RANGES_def)

lemma scripts_ja: "map_of LANGUAGE_RANGES ''ja'' = Some [''latin'', ''japanese'']"
  by (simp add: LANGUAGE_RANGES_def)

lemma iteration_order_en_US:
  "iteration_order ''en_US''
     [''0x20-0x7E'',
      ''0x2190-0x21FF,0x2300-0x23FF,0x2500-0x257F,0x2600-0x26FF,0x1F000-0x1F02F,0x1F0A0-0x1F0FF,0x1F100-0x1F1FF,0x1F200-0x1F2FF,0x1F300-0x1F9FF,0x1FA00-0x1FA6F,0x1FA70-0x1FAFF'']"
  by (simp add: iteration_order_def selected_ranges_def lookup_range_def lookup_groups
        LANGUAGE_RANGES_def insert_commute)

lemma iteration_order_en_US_rev:
  "iteration_order ''en_US''
     [''0x2190-0x21FF,0x2300-0x23FF,0x2500-0x257F,0x2600-0x26FF,0x1F000-0x1F02F,0x1F0A0-0x1F0FF,0x1F100-0x1F1FF,0x1F200-0x1F2FF,0x1F300-0x1F9FF,0x1FA00-0x1FA6F,0x1FA70-0x1FAFF'',
      ''0x20-0x7E'']"
  by (simp add: iteration_order_def selected_ranges_def lookup_range_def lookup_groups
        LANGUAGE_RANGES_def insert_commute)

lemma iteration_order_ja:
  "iteration_order ''ja''
     [''0x3040-0x309F,0x30A0-0x30FF,0x4E00-0x9FFF'',
      ''0x2190-0x21FF,0x2300-0x23FF,0x2500-0x257F,0x2600-0x26FF,0x1F000-0x1F02F,0x1F0A0-0x1F0FF,0x1F100-0x1F1FF,0x1F200-0x1F2FF,0x1F300-0x1F9FF,0x1FA00-0x1FA6F,0x1FA70-0x1FAFF'',
      ''0x20-0x7E'']"
  by (simp add: iteration_order_def selected_ranges_def lookup_range_def lookup_groups
        LANGUAGE_RANGES_def insert_commute)

subsection \<open>Independence of the iteration order\<close>

lemma order_irrelevant:
  assumes "supported language"
    and "iteration_order language order1" and "iteration_order language order2"
  shows "get_unicode_ranges order1 language = get_unicode_ranges order2 language"
proof -
  from supported_scripts [OF assms(1)]
  consider "map_of LANGUAGE_RANGES language = Some [''latin'']"
    | "map_of LANGUAGE_RANGES language = Some [''latin'', ''latin_extended'']"
    | "map_of LANGUAGE_RANGES language = Some [''latin'', ''greek'']"
    | "map_of LANGUAGE_RANGES language = Some [''latin'', ''devanagari'']"
    | "map_of LANGUAGE_RANGES language = Some [''latin'', ''japanese'']"
    | "map_of LANGUAGE_RANGES language = Some [''latin'', ''korean'']"
    | "map_of LANGUAGE_RANGES language = Some [''latin'', ''cyrillic'']"
    by blast
  then show ?thesis
  proof cases
    case 1
    show ?thesis
      by (simp only: result_latin [OF 1 assms(2)] result_latin [OF 1 assms(3)])
  next
    case 2
    show ?thesis
      by (simp only: result_latin_extended [OF 2 assms(2)] result_latin_extended [OF 2 assms(3)])
  next
    case 3
    show ?thesis
      by (simp only: result_greek [OF 3 assms(2)] result_greek [OF 3 assms(3)])
  next
    case 4
    show ?thesis
      by (simp only: result_devanagari [OF 4 assms(2)] result_devanagari [OF 4 assms(3)])
  next
    case 5
    show ?thesis
      by (simp only: result_japanese [OF 5 assms(2)] result_japanese [OF 5 assms(3)])
  next
    case 6
    show ?thesis
      by (simp only: result_korean [OF 6 assms(2)] result_korean [OF 6 assms(3)])
  next
    case 7
    show ?thesis
      by (simp only: result_cyrillic [OF 7 assms(2)] result_cyrillic [OF 7 assms(3)])
  qed
qed

lemma distinct_starts:
  assumes "supported language" and "iteration_order language order"
  shows "\<exists>low high.
           get_unicode_ranges order language = Inr (low, high) \<and>
           distinct (map start_of (split_on (CHR '','') low)) \<and>
           distinct (map start_of (split_on (CHR '','') high))"
  using supported_results [OF assms]
  apply (elim insertE emptyE)
  apply (simp_all add: split_results start_of_tokens)
  done

lemma returns_pair:
  assumes "supported language" and "iteration_order language order"
  shows "\<exists>low. get_unicode_ranges order language =
     Inr (low, ''0x1F000-0x1F02F,0x1F0A0-0x1F0FF,0x1F100-0x1F1FF,0x1F200-0x1F2FF,0x1F300-0x1F9FF,0x1FA00-0x1FA6F,0x1FA70-0x1FAFF'') \<and> low \<noteq> []"
  using supported_results [OF assms]
  apply (elim insertE emptyE)
  apply simp_all
  done

lemma includes_latin:
  assumes "supported language"
  shows "\<exists>scripts. map_of LANGUAGE_RANGES language = Some scripts \<and> ''latin'' \<in> set scripts"
  using supported_scripts [OF assms] by auto

subsection \<open>The command line\<close>

lemma jp_font_differs: "UNIFONT_JP_PATH script_dir \<noteq> UNIFONT_PATH script_dir"
  by (simp add: UNIFONT_JP_PATH_def UNIFONT_PATH_def path_join_def)

lemma make_cmd_eq:
  "make_cmd script_dir language low high output size_arg bpp =
     [''lv_font_conv'', ''--font'',
      (if language = ''ja'' then UNIFONT_JP_PATH script_dir else UNIFONT_PATH script_dir),
      ''--autohint-off'', ''-r'', low] @
     (if high \<noteq> []
      then [''--font'', UNIFONT_UPPER_PATH script_dir, ''--autohint-off'', ''-r'', high]
      else []) @
     [''--font'', NERD_FONT_PATH script_dir, ''-r'', ''0xE000-0xF8FF''] @
     [''--size'', str_int size_arg, ''--format'', ''bin'', ''--bpp'', str_int bpp,
      ''--no-compress'', ''-o'', output]"
  by (simp add: make_cmd_def NERD_FONT_RANGE_def)

section \<open>The claims\<close>

text \<open>
  Claim C1. For every language code that is a key of \<^verbatim>\<open>LANGUAGE_RANGES\<close>, and for every
  order in which the set of group strings can be iterated, \<^verbatim>\<open>get_unicode_ranges\<close>
  returns without error, and the tokens obtained by splitting the low and the high
  string on commas are pairwise different and are, as a set, the tokens of the emoji
  group and of every group that the table lists for the language.
\<close>

theorem resolve_tokens_exact:
  assumes "supported language" and "iteration_order language order"
  shows "\<exists>low high scripts.
           get_unicode_ranges order language = Inr (low, high) \<and>
           map_of LANGUAGE_RANGES language = Some scripts \<and>
           distinct (split_on (CHR '','') low @ split_on (CHR '','') high) \<and>
           set (split_on (CHR '','') low @ split_on (CHR '','') high) =
             set (concat (map group_tokens (''emoji'' # scripts)))"
  using supported_results [OF assms]
  apply (elim insertE emptyE)
  apply (simp_all add: group_tokens_eval split_results insert_commute)
  done

theorem resolve_tokens_exact_witness:
  "supported ''ja'' \<and>
   iteration_order ''ja''
     [''0x3040-0x309F,0x30A0-0x30FF,0x4E00-0x9FFF'',
      ''0x2190-0x21FF,0x2300-0x23FF,0x2500-0x257F,0x2600-0x26FF,0x1F000-0x1F02F,0x1F0A0-0x1F0FF,0x1F100-0x1F1FF,0x1F200-0x1F2FF,0x1F300-0x1F9FF,0x1FA00-0x1FA6F,0x1FA70-0x1FAFF'',
      ''0x20-0x7E''] \<and>
   (\<exists>low high scripts.
      get_unicode_ranges
        [''0x3040-0x309F,0x30A0-0x30FF,0x4E00-0x9FFF'',
         ''0x2190-0x21FF,0x2300-0x23FF,0x2500-0x257F,0x2600-0x26FF,0x1F000-0x1F02F,0x1F0A0-0x1F0FF,0x1F100-0x1F1FF,0x1F200-0x1F2FF,0x1F300-0x1F9FF,0x1FA00-0x1FA6F,0x1FA70-0x1FAFF'',
         ''0x20-0x7E''] ''ja'' = Inr (low, high) \<and>
      map_of LANGUAGE_RANGES ''ja'' = Some scripts \<and>
      distinct (split_on (CHR '','') low @ split_on (CHR '','') high) \<and>
      set (split_on (CHR '','') low @ split_on (CHR '','') high) =
        set (concat (map group_tokens (''emoji'' # scripts))))"
  using supported_ja iteration_order_ja
    resolve_tokens_exact [OF supported_ja iteration_order_ja]
  by blast

text \<open>
  Claim C2. For every string that is not a key of \<^verbatim>\<open>LANGUAGE_RANGES\<close>,
  \<^verbatim>\<open>get_unicode_ranges\<close> raises the ValueError whose message is
  \<^verbatim>\<open>Unsupported language: \<close> followed by the string itself, whatever the other
  inputs; it returns no strings, and \<^verbatim>\<open>main\<close> ends with that exception before any
  command is launched.
\<close>

theorem unsupported_language_error:
  assumes "\<not> supported language"
  shows "get_unicode_ranges order language =
           Inl (ValueError (''Unsupported language: '' @ language)) \<and>
         main run order script_dir language output size_arg bpp =
           ([], Inl (ValueError (''Unsupported language: '' @ language)))"
  using assms
  by (simp add: supported_def main_def get_unicode_ranges_def selected_ranges_def)

theorem unsupported_language_error_witness:
  "\<not> supported ''xx_unknown'' \<and>
   get_unicode_ranges [] ''xx_unknown'' =
     Inl (ValueError ''Unsupported language: xx_unknown'') \<and>
   main (\<lambda>cmd. Completed) [] ''/opt/tool'' ''xx_unknown'' ''out.bin'' 16 1 =
     ([], Inl (ValueError ''Unsupported language: xx_unknown''))"
  using not_supported_xx
    unsupported_language_error [OF not_supported_xx, of "[]" "\<lambda>cmd. Completed" "''/opt/tool''" "''out.bin''" 16 1]
  by simp

text \<open>
  Claim C3. For every supported language code, every token of the returned low string
  parses with a start value below \<open>0x10000\<close>, and every token of the returned high
  string parses with a start value of at least \<open>0x10000\<close>.
\<close>

theorem partition_threshold:
  assumes "supported language" and "iteration_order language order"
  shows "\<exists>low high.
           get_unicode_ranges order language = Inr (low, high) \<and>
           (\<forall>t \<in> set (split_on (CHR '','') low).
              \<exists>start stop. split_range t = Inr (start, stop) \<and> start < 0x10000) \<and>
           (\<forall>t \<in> set (split_on (CHR '','') high).
              \<exists>start stop. split_range t = Inr (start, stop) \<and> start \<ge> 0x10000)"
  using supported_results [OF assms]
  apply (elim insertE emptyE)
  apply (simp_all add: split_results split_range_tokens)
  done

theorem partition_threshold_witness:
  "supported ''en_US'' \<and>
   iteration_order ''en_US''
     [''0x20-0x7E'',
      ''0x2190-0x21FF,0x2300-0x23FF,0x2500-0x257F,0x2600-0x26FF,0x1F000-0x1F02F,0x1F0A0-0x1F0FF,0x1F100-0x1F1FF,0x1F200-0x1F2FF,0x1F300-0x1F9FF,0x1FA00-0x1FA6F,0x1FA70-0x1FAFF''] \<and>
   (\<exists>low high.
      get_unicode_ranges
        [''0x20-0x7E'',
         ''0x2190-0x21FF,0x2300-0x23FF,0x2500-0x257F,0x2600-0x26FF,0x1F000-0x1F02F,0x1F0A0-0x1F0FF,0x1F100-0x1F1FF,0x1F200-0x1F2FF,0x1F300-0x1F9FF,0x1FA00-0x1FA6F,0x1FA70-0x1FAFF''] ''en_US'' = Inr (low, high) \<and>
      (\<forall>t \<in> set (split_on (CHR '','') low).
         \<exists>start stop. split_range t = Inr (start, stop) \<and> start < 0x10000) \<and>
      (\<forall>t \<in> set (split_on (CHR '','') high).
         \<exists>start stop. split_range t = Inr (start, stop) \<and> start \<ge> 0x10000))"
  using supported_en_US iteration_order_en_US
    partition_threshold [OF supported_en_US iteration_order_en_US]
  by blast

text \<open>
  Claim C4. For every supported language code, the tokens of each returned string are in
  ascending order of their start values, and each of them is a token of the static
  tables, character for character. An empty list of tokens is joined to the empty
  string, so a partition without tokens is returned as the empty string, as for the
  set that holds the Basic Latin group alone.
\<close>

theorem partitions_sorted_original:
  assumes "supported language" and "iteration_order language order"
  shows "(\<exists>low high.
            get_unicode_ranges order language = Inr (low, high) \<and>
            (\<forall>t \<in> set (split_on (CHR '','') low). parses t \<and> t \<in> set table_tokens) \<and>
            (\<forall>t \<in> set (split_on (CHR '','') high). parses t \<and> t \<in> set table_tokens) \<and>
            sorted (map start_of (split_on (CHR '','') low)) \<and>
            sorted (map start_of (split_on (CHR '','') high))) \<and>
         join_with '','' [] = [] \<and>
         partition_ranges [''0x20-0x7E''] = Inr (''0x20-0x7E'', [])"
proof (intro conjI)
  show "\<exists>low high.
            get_unicode_ranges order language = Inr (low, high) \<and>
            (\<forall>t \<in> set (split_on (CHR '','') low). parses t \<and> t \<in> set table_tokens) \<and>
            (\<forall>t \<in> set (split_on (CHR '','') high). parses t \<and> t \<in> set table_tokens) \<and>
            sorted (map start_of (split_on (CHR '','') low)) \<and>
            sorted (map start_of (split_on (CHR '','') high))"
    using supported_results [OF assms]
    apply (elim insertE emptyE)
    apply (simp_all add: split_results parses_tokens start_of_tokens table_tokens_eval)
    done
  show "join_with '','' [] = []"
    by simp
  show "partition_ranges [''0x20-0x7E''] = Inr (''0x20-0x7E'', [])"
    by (simp add: partition_ranges_def sort_by_start_def split_groups split_range_tokens)
qed

theorem partitions_sorted_original_witness:
  "supported ''ja'' \<and>
   iteration_order ''ja''
     [''0x3040-0x309F,0x30A0-0x30FF,0x4E00-0x9FFF'',
      ''0x2190-0x21FF,0x2300-0x23FF,0x2500-0x257F,0x2600-0x26FF,0x1F000-0x1F02F,0x1F0A0-0x1F0FF,0x1F100-0x1F1FF,0x1F200-0x1F2FF,0x1F300-0x1F9FF,0x1FA00-0x1FA6F,0x1FA70-0x1FAFF'',
      ''0x20-0x7E''] \<and>
   (\<exists>low high.
      get_unicode_ranges
        [''0x3040-0x309F,0x30A0-0x30FF,0x4E00-0x9FFF'',
         ''0x2190-0x21FF,0x2300-0x23FF,0x2500-0x257F,0x2600-0x26FF,0x1F000-0x1F02F,0x1F0A0-0x1F0FF,0x1F100-0x1F1FF,0x1F200-0x1F2FF,0x1F300-0x1F9FF,0x1FA00-0x1FA6F,0x1FA70-0x1FAFF'',
         ''0x20-0x7E''] ''ja'' = Inr (low, high) \<and>
      (\<forall>t \<in> set (split_on (CHR '','') low). parses t \<and> t \<in> set table_tokens) \<and>
      (\<forall>t \<in> set (split_on (CHR '','') high). parses t \<and> t \<in> set table_tokens) \<and>
      sorted (map start_of (split_on (CHR '','') low)) \<and>
      sorted (map start_of (split_on (CHR '','') high))) \<and>
   join_with '','' [] = [] \<and>
   partition_ranges [''0x20-0x7E''] = Inr (''0x20-0x7E'', [])"
  using supported_ja iteration_order_ja
    partitions_sorted_original [OF supported_ja iteration_order_ja]
  by blast

text \<open>
  Claim C5. For \<^verbatim>\<open>en_US\<close> the tokens of the low string are the Basic Latin interval
  followed by the emoji intervals that start below \<open>0x10000\<close>, and the tokens of the
  high string are the emoji intervals that start at or above \<open>0x10000\<close>, from
  \<^verbatim>\<open>0x1F000-0x1F02F\<close> to \<^verbatim>\<open>0x1FA70-0x1FAFF\<close>.
\<close>

theorem en_US_ranges:
  assumes "iteration_order ''en_US'' order"
  shows "\<exists>low high.
           get_unicode_ranges order ''en_US'' = Inr (low, high) \<and>
           split_on (CHR '','') low =
             ''0x20-0x7E'' # filter (\<lambda>t. start_of t < 0x10000) (group_tokens ''emoji'') \<and>
           split_on (CHR '','') high =
             filter (\<lambda>t. start_of t \<ge> 0x10000) (group_tokens ''emoji'') \<and>
           split_on (CHR '','') high =
             [''0x1F000-0x1F02F'', ''0x1F0A0-0x1F0FF'', ''0x1F100-0x1F1FF'', ''0x1F200-0x1F2FF'',
              ''0x1F300-0x1F9FF'', ''0x1FA00-0x1FA6F'', ''0x1FA70-0x1FAFF'']"
  using result_latin [OF scripts_en_US assms]
  by (simp add: split_results group_tokens_eval start_of_tokens)

theorem en_US_ranges_witness:
  "iteration_order ''en_US''
     [''0x20-0x7E'',
      ''0x2190-0x21FF,0x2300-0x23FF,0x2500-0x257F,0x2600-0x26FF,0x1F000-0x1F02F,0x1F0A0-0x1F0FF,0x1F100-0x1F1FF,0x1F200-0x1F2FF,0x1F300-0x1F9FF,0x1FA00-0x1FA6F,0x1FA70-0x1FAFF''] \<and>
   (\<exists>low high.
      get_unicode_ranges
        [''0x20-0x7E'',
         ''0x2190-0x21FF,0x2300-0x23FF,0x2500-0x257F,0x2600-0x26FF,0x1F000-0x1F02F,0x1F0A0-0x1F0FF,0x1F100-0x1F1FF,0x1F200-0x1F2FF,0x1F300-0x1F9FF,0x1FA00-0x1FA6F,0x1FA70-0x1FAFF''] ''en_US'' = Inr (low, high) \<and>
      split_on (CHR '','') low =
        ''0x20-0x7E'' # filter (\<lambda>t. start_of t < 0x10000) (group_tokens ''emoji'') \<and>
      split_on (CHR '','') high =
        filter (\<lambda>t. start_of t \<ge> 0x10000) (group_tokens ''emoji'') \<and>
      split_on (CHR '','') high =
        [''0x1F000-0x1F02F'', ''0x1F0A0-0x1F0FF'', ''0x1F100-0x1F1FF'', ''0x1F200-0x1F2FF'',
              ''0x1F300-0x1F9FF'', ''0x1FA00-0x1FA6F'', ''0x1FA70-0x1FAFF''])"
  using iteration_order_en_US en_US_ranges [OF iteration_order_en_US]
  by blast

text \<open>
  Claim C6. For \<^verbatim>\<open>ja\<close> the tokens of the low string include the three intervals of
  the Japanese group, the Basic Latin interval, and every emoji interval that starts
  below \<open>0x10000\<close>.
\<close>

theorem ja_ranges:
  assumes "iteration_order ''ja'' order"
  shows "\<exists>low high.
           get_unicode_ranges order ''ja'' = Inr (low, high) \<and>
           ''0x3040-0x309F'' \<in> set (split_on (CHR '','') low) \<and>
           ''0x30A0-0x30FF'' \<in> set (split_on (CHR '','') low) \<and>
           ''0x4E00-0x9FFF'' \<in> set (split_on (CHR '','') low) \<and>
           ''0x20-0x7E'' \<in> set (split_on (CHR '','') low) \<and>
           (\<forall>t \<in> set (group_tokens ''emoji'').
              start_of t < 0x10000 \<longrightarrow> t \<in> set (split_on (CHR '','') low))"
  using result_japanese [OF scripts_ja assms]
  by (simp add: split_results group_tokens_eval start_of_tokens)

theorem ja_ranges_witness:
  "iteration_order ''ja''
     [''0x3040-0x309F,0x30A0-0x30FF,0x4E00-0x9FFF'',
      ''0x2190-0x21FF,0x2300-0x23FF,0x2500-0x257F,0x2600-0x26FF,0x1F000-0x1F02F,0x1F0A0-0x1F0FF,0x1F100-0x1F1FF,0x1F200-0x1F2FF,0x1F300-0x1F9FF,0x1FA00-0x1FA6F,0x1FA70-0x1FAFF'',
      ''0x20-0x7E''] \<and>
   (\<exists>low high.
      get_unicode_ranges
        [''0x3040-0x309F,0x30A0-0x30FF,0x4E00-0x9FFF'',
         ''0x2190-0x21FF,0x2300-0x23FF,0x2500-0x257F,0x2600-0x26FF,0x1F000-0x1F02F,0x1F0A0-0x1F0FF,0x1F100-0x1F1FF,0x1F200-0x1F2FF,0x1F300-0x1F9FF,0x1FA00-0x1FA6F,0x1FA70-0x1FAFF'',
         ''0x20-0x7E''] ''ja'' = Inr (low, high) \<and>
      ''0x3040-0x309F'' \<in> set (split_on (CHR '','') low) \<and>
      ''0x30A0-0x30FF'' \<in> set (split_on (CHR '','') low) \<and>
      ''0x4E00-0x9FFF'' \<in> set (split_on (CHR '','') low) \<and>
      ''0x20-0x7E'' \<in> set (split_on (CHR '','') low) \<and>
      (\<forall>t \<in> set (group_tokens ''emoji'').
         start_of t < 0x10000 \<longrightarrow> t \<in> set (split_on (CHR '','') low)))"
  using iteration_order_ja ja_ranges [OF iteration_order_ja]
  by blast

text \<open>
  Claim C7. For every supported language code, two calls return the same result,
  whatever the order in which each of them iterates the set of group strings; within
  each of the two returned strings no two tokens have the same start value.
\<close>

theorem resolve_deterministic:
  assumes "supported language"
    and "iteration_order language order1" and "iteration_order language order2"
  shows "get_unicode_ranges order1 language = get_unicode_ranges order2 language \<and>
         (\<exists>low high.
            get_unicode_ranges order1 language = Inr (low, high) \<and>
            distinct (map start_of (split_on (CHR '','') low)) \<and>
            distinct (map start_of (split_on (CHR '','') high)))"
  using order_irrelevant [OF assms] distinct_starts [OF assms(1,2)]
  by simp

theorem resolve_deterministic_witness:
  "supported ''en_US'' \<and>
   iteration_order ''en_US''
     [''0x20-0x7E'',
      ''0x2190-0x21FF,0x2300-0x23FF,0x2500-0x257F,0x2600-0x26FF,0x1F000-0x1F02F,0x1F0A0-0x1F0FF,0x1F100-0x1F1FF,0x1F200-0x1F2FF,0x1F300-0x1F9FF,0x1FA00-0x1FA6F,0x1FA70-0x1FAFF''] \<and>
   iteration_order ''en_US''
     [''0x2190-0x21FF,0x2300-0x23FF,0x2500-0x257F,0x2600-0x26FF,0x1F000-0x1F02F,0x1F0A0-0x1F0FF,0x1F100-0x1F1FF,0x1F200-0x1F2FF,0x1F300-0x1F9FF,0x1FA00-0x1FA6F,0x1FA70-0x1FAFF'',
      ''0x20-0x7E''] \<and>
   get_unicode_ranges
     [''0x20-0x7E'',
      ''0x2190-0x21FF,0x2300-0x23FF,0x2500-0x257F,0x2600-0x26FF,0x1F000-0x1F02F,0x1F0A0-0x1F0FF,0x1F100-0x1F1FF,0x1F200-0x1F2FF,0x1F300-0x1F9FF,0x1FA00-0x1FA6F,0x1FA70-0x1FAFF''] ''en_US'' =
   get_unicode_ranges
     [''0x2190-0x21FF,0x2300-0x23FF,0x2500-0x257F,0x2600-0x26FF,0x1F000-0x1F02F,0x1F0A0-0x1F0FF,0x1F100-0x1F1FF,0x1F200-0x1F2FF,0x1F300-0x1F9FF,0x1FA00-0x1FA6F,0x1FA70-0x1FAFF'',
      ''0x20-0x7E''] ''en_US''"
  using supported_en_US iteration_order_en_US iteration_order_en_US_rev
    resolve_deterministic [OF supported_en_US iteration_order_en_US iteration_order_en_US_rev]
  by blast

text \<open>
  Claim C8. Every token of every group string of \<^verbatim>\<open>UNICODE_RANGES\<close>, and the token of
  \<^verbatim>\<open>NERD_FONT_RANGE\<close>, parses to a pair with \<open>0 \<le> start \<le> stop\<close> and
  \<open>start < 2 ^ 32\<close>, whose two ends lie on the same side of \<open>0x10000\<close>.
\<close>

theorem table_intervals_wellformed:
  "\<forall>t \<in> set (table_tokens @ split_on (CHR '','') NERD_FONT_RANGE).
     \<exists>start stop.
       split_range t = Inr (start, stop) \<and>
       0 \<le> start \<and> start \<le> stop \<and> start < 2 ^ 32 \<and>
       (start < 0x10000 \<longleftrightarrow> stop < 0x10000)"
  by (simp add: table_tokens_eval NERD_FONT_RANGE_def split_range_tokens)

theorem table_intervals_wellformed_witness:
  "''0x1F300-0x1F9FF'' \<in> set (table_tokens @ split_on (CHR '','') NERD_FONT_RANGE) \<and>
   split_range ''0x1F300-0x1F9FF'' = Inr (0x1F300, 0x1F9FF) \<and>
   (\<exists>start stop.
      split_range ''0x1F300-0x1F9FF'' = Inr (start, stop) \<and>
      0 \<le> start \<and> start \<le> stop \<and> start < 2 ^ 32 \<and>
      (start < 0x10000 \<longleftrightarrow> stop < 0x10000))"
proof -
  have m: "''0x1F300-0x1F9FF'' \<in> set (table_tokens @ split_on (CHR '','') NERD_FONT_RANGE)"
    by (simp add: table_tokens_eval)
  show ?thesis
    using m bspec [OF table_intervals_wellformed m]
    by (simp add: split_range_tokens)
qed

text \<open>
  Claim C9. For every supported language code and all other arguments, \<^verbatim>\<open>main\<close>
  launches exactly one command, built from the two returned strings. The command has
  the pair of the base font and the low string, then the pair of the upper font and
  the high string exactly when the high string is not empty, then the pair of the icon
  font and the range \<^verbatim>\<open>0xE000-0xF8FF\<close>, and it ends with the common arguments. The base
  font is the Japanese one exactly when the language code is \<^verbatim>\<open>ja\<close>.
\<close>

theorem main_command:
  assumes "supported language" and "iteration_order language order"
  shows "(\<exists>low high.
            get_unicode_ranges order language = Inr (low, high) \<and>
            fst (main run order script_dir language output size_arg bpp) =
              [make_cmd script_dir language low high output size_arg bpp]) \<and>
         (\<forall>low high.
            make_cmd script_dir language low high output size_arg bpp =
              [''lv_font_conv'', ''--font'',
               (if language = ''ja'' then UNIFONT_JP_PATH script_dir
                else UNIFONT_PATH script_dir),
               ''--autohint-off'', ''-r'', low] @
              (if high \<noteq> []
               then [''--font'', UNIFONT_UPPER_PATH script_dir, ''--autohint-off'', ''-r'', high]
               else []) @
              [''--font'', NERD_FONT_PATH script_dir, ''-r'', ''0xE000-0xF8FF''] @
              [''--size'', str_int size_arg, ''--format'', ''bin'', ''--bpp'', str_int bpp,
               ''--no-compress'', ''-o'', output]) \<and>
         ((if language = ''ja'' then UNIFONT_JP_PATH script_dir else UNIFONT_PATH script_dir) =
            UNIFONT_JP_PATH script_dir \<longleftrightarrow> language = ''ja'')"
proof (intro conjI)
  from returns_pair [OF assms] obtain low high
    where r: "get_unicode_ranges order language = Inr (low, high)"
    by blast
  then show "\<exists>low high.
            get_unicode_ranges order language = Inr (low, high) \<and>
            fst (main run order script_dir language output size_arg bpp) =
              [make_cmd script_dir language low high output size_arg bpp]"
    by (simp add: main_def Let_def)
  show "\<forall>low high.
            make_cmd script_dir language low high output size_arg bpp =
              [''lv_font_conv'', ''--font'',
               (if language = ''ja'' then UNIFONT_JP_PATH script_dir
                else UNIFONT_PATH script_dir),
               ''--autohint-off'', ''-r'', low] @
              (if high \<noteq> []
               then [''--font'', UNIFONT_UPPER_PATH script_dir, ''--autohint-off'', ''-r'', high]
               else []) @
              [''--font'', NERD_FONT_PATH script_dir, ''-r'', ''0xE000-0xF8FF''] @
              [''--size'', str_int size_arg, ''--format'', ''bin'', ''--bpp'', str_int bpp,
               ''--no-compress'', ''-o'', output]"
    by (intro allI) (rule make_cmd_eq)
  show "(if language = ''ja'' then UNIFONT_JP_PATH script_dir else UNIFONT_PATH script_dir) =
            UNIFONT_JP_PATH script_dir \<longleftrightarrow> language = ''ja''"
    using jp_font_differs [of script_dir] by auto
qed

theorem main_command_witness:
  "supported ''ja'' \<and>
   iteration_order ''ja''
     [''0x3040-0x309F,0x30A0-0x30FF,0x4E00-0x9FFF'',
      ''0x2190-0x21FF,0x2300-0x23FF,0x2500-0x257F,0x2600-0x26FF,0x1F000-0x1F02F,0x1F0A0-0x1F0FF,0x1F100-0x1F1FF,0x1F200-0x1F2FF,0x1F300-0x1F9FF,0x1FA00-0x1FA6F,0x1FA70-0x1FAFF'',
      ''0x20-0x7E''] \<and>
   fst (main (\<lambda>cmd. Completed)
          [''0x3040-0x309F,0x30A0-0x30FF,0x4E00-0x9FFF'',
           ''0x2190-0x21FF,0x2300-0x23FF,0x2500-0x257F,0x2600-0x26FF,0x1F000-0x1F02F,0x1F0A0-0x1F0FF,0x1F100-0x1F1FF,0x1F200-0x1F2FF,0x1F300-0x1F9FF,0x1FA00-0x1FA6F,0x1FA70-0x1FAFF'',
           ''0x20-0x7E'']
          ''/opt/tool'' ''ja'' ''out.bin'' 16 1) =
     [[''lv_font_conv'', ''--font'', ''/opt/tool/fonts/unifont_jp-16.0.02.otf'',
       ''--autohint-off'', ''-r'',
       ''0x20-0x7E,0x2190-0x21FF,0x2300-0x23FF,0x2500-0x257F,0x2600-0x26FF,0x3040-0x309F,0x30A0-0x30FF,0x4E00-0x9FFF'',
       ''--font'', ''/opt/tool/fonts/unifont_upper-16.0.02.otf'', ''--autohint-off'', ''-r'',
       ''0x1F000-0x1F02F,0x1F0A0-0x1F0FF,0x1F100-0x1F1FF,0x1F200-0x1F2FF,0x1F300-0x1F9FF,0x1FA00-0x1FA6F,0x1FA70-0x1FAFF'',
       ''--font'', ''/opt/tool/fonts/SymbolsNerdFontMono-Regular.ttf'', ''-r'', ''0xE000-0xF8FF'',
       ''--size'', ''16'', ''--format'', ''bin'', ''--bpp'', ''1'', ''--no-compress'',
       ''-o'', ''out.bin'']]"
proof -
  note t = main_command [OF supported_ja iteration_order_ja,
      of "\<lambda>cmd. Completed" "''/opt/tool''" "''out.bin''" 16 1]
  have r: "get_unicode_ranges
          [''0x3040-0x309F,0x30A0-0x30FF,0x4E00-0x9FFF'',
           ''0x2190-0x21FF,0x2300-0x23FF,0x2500-0x257F,0x2600-0x26FF,0x1F000-0x1F02F,0x1F0A0-0x1F0FF,0x1F100-0x1F1FF,0x1F200-0x1F2FF,0x1F300-0x1F9FF,0x1FA00-0x1FA6F,0x1FA70-0x1FAFF'',
           ''0x20-0x7E''] ''ja'' =
        Inr (''0x20-0x7E,0x2190-0x21FF,0x2300-0x23FF,0x2500-0x257F,0x2600-0x26FF,0x3040-0x309F,0x30A0-0x30FF,0x4E00-0x9FFF'',
             ''0x1F000-0x1F02F,0x1F0A0-0x1F0FF,0x1F100-0x1F1FF,0x1F200-0x1F2FF,0x1F300-0x1F9FF,0x1FA00-0x1FA6F,0x1FA70-0x1FAFF'')"
    by (rule result_japanese [OF scripts_ja iteration_order_ja])
  have p: "UNIFONT_JP_PATH ''/opt/tool'' = ''/opt/tool/fonts/unifont_jp-16.0.02.otf''"
    "UNIFONT_UPPER_PATH ''/opt/tool'' = ''/opt/tool/fonts/unifont_upper-16.0.02.otf''"
    "NERD_FONT_PATH ''/opt/tool'' = ''/opt/tool/fonts/SymbolsNerdFontMono-Regular.ttf''"
    by (simp_all add: UNIFONT_JP_PATH_def UNIFONT_UPPER_PATH_def NERD_FONT_PATH_def path_join_def)
  have d: "str_int 16 = ''16''" "str_int 1 = ''1''"
    by code_simp+
  from t have "fst (main (\<lambda>cmd. Completed)
          [''0x3040-0x309F,0x30A0-0x30FF,0x4E00-0x9FFF'',
           ''0x2190-0x21FF,0x2300-0x23FF,0x2500-0x257F,0x2600-0x26FF,0x1F000-0x1F02F,0x1F0A0-0x1F0FF,0x1F100-0x1F1FF,0x1F200-0x1F2FF,0x1F300-0x1F9FF,0x1FA00-0x1FA6F,0x1FA70-0x1FAFF'',
           ''0x20-0x7E'']
          ''/opt/tool'' ''ja'' ''out.bin'' 16 1) =
     [make_cmd ''/opt/tool'' ''ja''
        ''0x20-0x7E,0x2190-0x21FF,0x2300-0x23FF,0x2500-0x257F,0x2600-0x26FF,0x3040-0x309F,0x30A0-0x30FF,0x4E00-0x9FFF''
        ''0x1F000-0x1F02F,0x1F0A0-0x1F0FF,0x1F100-0x1F1FF,0x1F200-0x1F2FF,0x1F300-0x1F9FF,0x1FA00-0x1FA6F,0x1FA70-0x1FAFF''
        ''out.bin'' 16 1]"
    by (simp only: r) simp
  moreover from t have "make_cmd ''/opt/tool'' ''ja''
        ''0x20-0x7E,0x2190-0x21FF,0x2300-0x23FF,0x2500-0x257F,0x2600-0x26FF,0x3040-0x309F,0x30A0-0x30FF,0x4E00-0x9FFF''
        ''0x1F000-0x1F02F,0x1F0A0-0x1F0FF,0x1F100-0x1F1FF,0x1F200-0x1F2FF,0x1F300-0x1F9FF,0x1FA00-0x1FA6F,0x1FA70-0x1FAFF''
        ''out.bin'' 16 1 =
     [''lv_font_conv'', ''--font'', ''/opt/tool/fonts/unifont_jp-16.0.02.otf'',
       ''--autohint-off'', ''-r'',
       ''0x20-0x7E,0x2190-0x21FF,0x2300-0x23FF,0x2500-0x257F,0x2600-0x26FF,0x3040-0x309F,0x30A0-0x30FF,0x4E00-0x9FFF'',
       ''--font'', ''/opt/tool/fonts/unifont_upper-16.0.02.otf'', ''--autohint-off'', ''-r'',
       ''0x1F000-0x1F02F,0x1F0A0-0x1F0FF,0x1F100-0x1F1FF,0x1F200-0x1F2FF,0x1F300-0x1F9FF,0x1FA00-0x1FA6F,0x1FA70-0x1FAFF'',
       ''--font'', ''/opt/tool/fonts/SymbolsNerdFontMono-Regular.ttf'', ''-r'', ''0xE000-0xF8FF'',
       ''--size'', ''16'', ''--format'', ''bin'', ''--bpp'', ''1'', ''--no-compress'',
       ''-o'', ''out.bin'']"
    by (simp add: p d)
  ultimately show ?thesis
    using supported_ja iteration_order_ja by simp
qed

text \<open>
  Claim C10. For every supported language code the returned high string is the same:
  the seven emoji intervals that start at or above \<open>0x10000\<close>, in ascending order.
  The returned low string is never empty: every profile lists the Latin group, and no
  group other than the emoji group has a token that starts at or above \<open>0x10000\<close>.
\<close>

theorem high_is_emoji_low_nonempty:
  assumes "supported language" and "iteration_order language order"
  shows "(\<exists>low. get_unicode_ranges order language =
            Inr (low, ''0x1F000-0x1F02F,0x1F0A0-0x1F0FF,0x1F100-0x1F1FF,0x1F200-0x1F2FF,0x1F300-0x1F9FF,0x1FA00-0x1FA6F,0x1FA70-0x1FAFF'') \<and>
            low \<noteq> []) \<and>
         (\<exists>scripts. map_of LANGUAGE_RANGES language = Some scripts \<and> ''latin'' \<in> set scripts) \<and>
         (\<forall>(script, r) \<in> set UNICODE_RANGES.
            script \<noteq> ''emoji'' \<longrightarrow>
            (\<forall>t \<in> set (split_on (CHR '','') r).
               \<exists>start stop. split_range t = Inr (start, stop) \<and> start < 0x10000))"
proof (intro conjI)
  show "\<exists>low. get_unicode_ranges order language =
            Inr (low, ''0x1F000-0x1F02F,0x1F0A0-0x1F0FF,0x1F100-0x1F1FF,0x1F200-0x1F2FF,0x1F300-0x1F9FF,0x1FA00-0x1FA6F,0x1FA70-0x1FAFF'') \<and>
            low \<noteq> []"
    by (rule returns_pair [OF assms])
  show "\<exists>scripts. map_of LANGUAGE_RANGES language = Some scripts \<and> ''latin'' \<in> set scripts"
    by (rule includes_latin [OF assms(1)])
  show "\<forall>(script, r) \<in> set UNICODE_RANGES.
            script \<noteq> ''emoji'' \<longrightarrow>
            (\<forall>t \<in> set (split_on (CHR '','') r).
               \<exists>start stop. split_range t = Inr (start, stop) \<and> start < 0x10000)"
    by (simp add: UNICODE_RANGES_def split_groups split_range_tokens)
qed

theorem high_is_emoji_low_nonempty_witness:
  "supported ''ja'' \<and>
   iteration_order ''ja''
     [''0x3040-0x309F,0x30A0-0x30FF,0x4E00-0x9FFF'',
      ''0x2190-0x21FF,0x2300-0x23FF,0x2500-0x257F,0x2600-0x26FF,0x1F000-0x1F02F,0x1F0A0-0x1F0FF,0x1F100-0x1F1FF,0x1F200-0x1F2FF,0x1F300-0x1F9FF,0x1FA00-0x1FA6F,0x1FA70-0x1FAFF'',
      ''0x20-0x7E''] \<and>
   (\<exists>low. get_unicode_ranges
        [''0x3040-0x309F,0x30A0-0x30FF,0x4E00-0x9FFF'',
         ''0x2190-0x21FF,0x2300-0x23FF,0x2500-0x257F,0x2600-0x26FF,0x1F000-0x1F02F,0x1F0A0-0x1F0FF,0x1F100-0x1F1FF,0x1F200-0x1F2FF,0x1F300-0x1F9FF,0x1FA00-0x1FA6F,0x1FA70-0x1FAFF'',
         ''0x20-0x7E''] ''ja'' =
      Inr (low, ''0x1F000-0x1F02F,0x1F0A0-0x1F0FF,0x1F100-0x1F1FF,0x1F200-0x1F2FF,0x1F300-0x1F9FF,0x1FA00-0x1FA6F,0x1FA70-0x1FAFF'') \<and>
      low \<noteq> [])"
  using supported_ja iteration_order_ja
    high_is_emoji_low_nonempty [OF supported_ja iteration_order_ja]
  by blast

end
